theory Spec2Isabelle
  imports Main
begin

section \<open>Python values shared by the feed and the mail pipeline\<close>

text \<open>
  Exceptions are values: a computation that may raise returns \<open>exn + 'a\<close>, with
  \<open>Inl\<close> for the exception. Only the exception classes the handlers of the source
  tell apart are distinguished.
\<close>

datatype exn =
    RequestException
  | HttpError
  | IntegrityError
  | ValueError
  | ParserRejectedMarkup
  | AttributeError
  | OtherError

text \<open>
  \<open>time.struct_time\<close> as the feed library hands it over (nine fields), and
  \<open>datetime.datetime\<close>. \<open>datetime(*t[:6])\<close> takes the first six fields and raises
  \<open>ValueError\<close> when one of them is out of range.
\<close>

record struct_time =
  tm_year :: int
  tm_mon :: int
  tm_mday :: int
  tm_hour :: int
  tm_min :: int
  tm_sec :: int
  tm_wday :: int
  tm_yday :: int
  tm_isdst :: int

record datetime =
  dt_year :: int
  dt_month :: int
  dt_day :: int
  dt_hour :: int
  dt_minute :: int
  dt_second :: int
  dt_microsecond :: int

definition is_leap :: "int \<Rightarrow> bool" where
  "is_leap y = (y mod 4 = 0 \<and> (if y mod 100 = 0 then y mod 400 = 0 else True))"

definition days_in_month :: "int \<Rightarrow> int \<Rightarrow> int" where
  "days_in_month y m =
     (if m = 2 then (if is_leap y then 29 else 28)
      else if m = 4 \<or> m = 6 \<or> m = 9 \<or> m = 11 then 30
      else 31)"

definition datetime_of :: "struct_time \<Rightarrow> exn + datetime" where
  "datetime_of t =
     (if 1 \<le> tm_year t \<and> tm_year t \<le> 9999
         \<and> 1 \<le> tm_mon t \<and> tm_mon t \<le> 12
         \<and> 1 \<le> tm_mday t \<and> tm_mday t \<le> days_in_month (tm_year t) (tm_mon t)
         \<and> 0 \<le> tm_hour t \<and> tm_hour t \<le> 23
         \<and> 0 \<le> tm_min t \<and> tm_min t \<le> 59
         \<and> 0 \<le> tm_sec t \<and> tm_sec t \<le> 59
      then Inr \<lparr>dt_year = tm_year t, dt_month = tm_mon t, dt_day = tm_mday t,
                dt_hour = tm_hour t, dt_minute = tm_min t, dt_second = tm_sec t,
                dt_microsecond = 0\<rparr>
      else Inl ValueError)"

section \<open>The store: table \<open>items\<close> of models.py\<close>

text \<open>
  A candidate is an \<open>Item\<close> before it is added to the session; a stored row also has
  the primary key and \<open>created_at\<close>, both filled in by the database at INSERT.
\<close>

record item =
  title :: string
  link :: string
  published :: datetime
  summary :: string
  source :: string

record row = item +
  row_id :: nat
  created_at :: datetime

text \<open>What the loops write to the log for one entry or message.\<close>

datatype event =
    Added item
  | DuplicateSkipped string
  | NoLinkSkipped string
  | ItemError exn
  | NetworkError string
  | UnexpectedError string

text \<open>
  The world the pipeline runs in: the rows of the table, the number of clock readings
  taken so far, and the log. \<open>datetime.utcnow()\<close> is reading number \<open>ticks\<close> of a clock
  \<open>clock :: nat \<Rightarrow> datetime\<close> that the functions below take as a parameter.
\<close>

record world =
  rows :: "row list"
  ticks :: nat
  events :: "event list"

definition next_id :: "row list \<Rightarrow> nat" where
  "next_id rs = Suc (fold max (map row_id rs) 0)"

definition stored :: "item \<Rightarrow> nat \<Rightarrow> datetime \<Rightarrow> row" where
  "stored it n c =
     \<lparr>title = title it, link = link it, published = published it, summary = summary it,
      source = source it, row_id = n, created_at = c\<rparr>"

text \<open>
  \<open>session.add(item); session.commit()\<close>. The column \<open>link\<close> is declared
  \<open>unique=True\<close>: the INSERT of a link that a row already has raises
  \<open>IntegrityError\<close> and writes nothing. Otherwise the row is appended with the next
  primary key and \<open>created_at\<close> read from the clock. Only the reading that is stored
  is counted; failures of the database other than the constraint are outside the model.
\<close>

definition session_add_commit :: "(nat \<Rightarrow> datetime) \<Rightarrow> world \<Rightarrow> item \<Rightarrow> exn + world" where
  "session_add_commit clock w it =
     (if link it \<in> set (map link (rows w)) then Inl IntegrityError
      else Inr (w\<lparr>rows := rows w @ [stored it (next_id (rows w)) (clock (ticks w))],
                  ticks := Suc (ticks w)\<rparr>))"

section \<open>feeds.py: one feed\<close>

text \<open>
  A parsed feed entry. \<open>None\<close> is a key that \<open>entry.get\<close> does not find; for the two
  time fields it is an attribute that is missing or falsy.
\<close>

record entry =
  entry_title :: "string option"
  entry_link :: "string option"
  entry_summary :: "string option"
  entry_description :: "string option"
  published_parsed :: "struct_time option"
  updated_parsed :: "struct_time option"

text \<open>Lines 68-76 of fetch_single_feed: the published date, \<open>now\<close> being the default.\<close>

definition resolve_published :: "datetime \<Rightarrow> entry \<Rightarrow> exn + datetime" where
  "resolve_published now e =
     (case published_parsed e of
        Some t \<Rightarrow> datetime_of t
      | None \<Rightarrow> (case updated_parsed e of
                   Some u \<Rightarrow> datetime_of u
                 | None \<Rightarrow> Inr now))"

definition get_title :: "entry \<Rightarrow> string" where
  "get_title e = (case entry_title e of Some t \<Rightarrow> t | None \<Rightarrow> ''No Title'')"

definition get_link :: "entry \<Rightarrow> string" where
  "get_link e = (case entry_link e of Some l \<Rightarrow> l | None \<Rightarrow> [])"

definition get_summary :: "entry \<Rightarrow> string" where
  "get_summary e =
     (case entry_summary e of
        Some s \<Rightarrow> s
      | None \<Rightarrow> (case entry_description e of Some d \<Rightarrow> d | None \<Rightarrow> []))"

text \<open>
  Lines 63-92: the candidate built from one entry. \<open>Inl\<close> when the date raises,
  \<open>Inr None\<close> when the entry has no link and is skipped, \<open>Inr (Some it)\<close> otherwise.
\<close>

definition candidate :: "string \<Rightarrow> datetime \<Rightarrow> entry \<Rightarrow> exn + item option" where
  "candidate source_name now e =
     (case resolve_published now e of
        Inl ex \<Rightarrow> Inl ex
      | Inr pub \<Rightarrow>
          if get_link e = [] then Inr None
          else Inr (Some \<lparr>title = get_title e, link = get_link e, published = pub,
                           summary = get_summary e, source = source_name\<rparr>))"

definition say :: "event \<Rightarrow> world \<Rightarrow> world" where
  "say ev w = w\<lparr>events := events w @ [ev]\<rparr>"

definition tick :: "world \<Rightarrow> world" where
  "tick w = w\<lparr>ticks := Suc (ticks w)\<rparr>"

text \<open>
  Lines 62-112: the body of the loop over the entries. The state is the world and the
  list \<open>new_items\<close>. Every handler ends in \<open>continue\<close>, so the body always returns.
\<close>

definition process_entry ::
  "(nat \<Rightarrow> datetime) \<Rightarrow> string \<Rightarrow> world \<times> item list \<Rightarrow> entry \<Rightarrow> world \<times> item list" where
  "process_entry clock source_name st e =
     (let w = fst st; new_items = snd st in
      case candidate source_name (clock (ticks w)) e of
        Inl ex \<Rightarrow> (say (ItemError ex) (tick w), new_items)
      | Inr None \<Rightarrow> (say (NoLinkSkipped (get_title e)) (tick w), new_items)
      | Inr (Some it) \<Rightarrow>
          (case session_add_commit clock (tick w) it of
             Inl ex \<Rightarrow>
               if ex = IntegrityError
               then (say (DuplicateSkipped (get_title e)) (tick w), new_items)
               else (say (ItemError ex) (tick w), new_items)
           | Inr w' \<Rightarrow> (say (Added it) w', new_items @ [it])))"

fun process_entries ::
  "(nat \<Rightarrow> datetime) \<Rightarrow> string \<Rightarrow> world \<times> item list \<Rightarrow> entry list \<Rightarrow> world \<times> item list" where
  "process_entries clock source_name st [] = st"
| "process_entries clock source_name st (e # es) =
     process_entries clock source_name (process_entry clock source_name st e) es"

text \<open>
  What fetch_single_feed asks of the network and of the feed library:
  \<open>requests.get(url, timeout=REQUEST_TIMEOUT)\<close> followed by \<open>raise_for_status()\<close>,
  giving the response content or the exception raised, and \<open>feedparser.parse\<close>,
  giving \<open>feed.entries\<close>.
\<close>

record feed_env =
  requests_get :: "string \<Rightarrow> exn + string"
  feedparser_parse :: "string \<Rightarrow> entry list"

text \<open>
  fetch_single_feed, lines 40-128. Both outer handlers return the empty list, so every
  path ends in a \<open>return\<close>: the result is always \<open>Inr\<close>. Of the log lines, those
  that tell the outcome of an entry or of the request are kept as events.
\<close>

definition fetch_single_feed ::
  "feed_env \<Rightarrow> (nat \<Rightarrow> datetime) \<Rightarrow> world \<Rightarrow> string \<Rightarrow> string \<Rightarrow> exn + (item list \<times> world)" where
  "fetch_single_feed env clock w source_name feed_url =
     (case requests_get env feed_url of
        Inl ex \<Rightarrow>
          if ex = RequestException then Inr ([], say (NetworkError source_name) w)
          else Inr ([], say (UnexpectedError source_name) w)
      | Inr content \<Rightarrow>
          (let st = process_entries clock source_name (w, []) (feedparser_parse env content)
           in Inr (snd st, fst st)))"

section \<open>feeds.py: one cycle over all feeds\<close>

text \<open>The per-source dictionary of the summary; a key that is not set is \<open>None\<close>.\<close>

record feed_result =
  success :: bool
  new_items :: nat
  result_items :: "item list option"
  error :: "string option"

definition str_exn :: "exn \<Rightarrow> string" where
  "str_exn ex =
     (case ex of
        RequestException \<Rightarrow> ''RequestException''
      | HttpError \<Rightarrow> ''HttpError''
      | IntegrityError \<Rightarrow> ''IntegrityError''
      | ValueError \<Rightarrow> ''ValueError''
      | ParserRejectedMarkup \<Rightarrow> ''ParserRejectedMarkup''
      | AttributeError \<Rightarrow> ''AttributeError''
      | OtherError \<Rightarrow> ''OtherError'')"

text \<open>
  fetch_all_feeds, lines 137-163: the loop over \<open>RSS_FEEDS.items()\<close>, with the
  \<open>try\<close> and its \<open>except Exception\<close> branch as the source has them. The feeds are
  the items of the dictionary in its order; the pause between two feeds has no effect
  on the summary and is left out.
\<close>

fun fetch_all_feeds_from ::
  "feed_env \<Rightarrow> (nat \<Rightarrow> datetime) \<Rightarrow> (string \<times> string) list
     \<Rightarrow> (string \<rightharpoonup> feed_result) \<times> world \<Rightarrow> (string \<rightharpoonup> feed_result) \<times> world" where
  "fetch_all_feeds_from env clock [] acc = acc"
| "fetch_all_feeds_from env clock (f # fs) acc =
     (let source_name = fst f; feed_url = snd f; results = fst acc; w = snd acc in
      case fetch_single_feed env clock w source_name feed_url of
        Inr r \<Rightarrow>
          fetch_all_feeds_from env clock fs
            (results(source_name \<mapsto>
               \<lparr>success = True, new_items = length (fst r),
                result_items = Some (fst r), error = None\<rparr>),
             snd r)
      | Inl ex \<Rightarrow>
          fetch_all_feeds_from env clock fs
            (results(source_name \<mapsto>
               \<lparr>success = False, new_items = 0,
                result_items = None, error = Some (str_exn ex)\<rparr>),
             w))"

definition fetch_all_feeds ::
  "feed_env \<Rightarrow> (nat \<Rightarrow> datetime) \<Rightarrow> (string \<times> string) list \<Rightarrow> world
     \<Rightarrow> (string \<rightharpoonup> feed_result) \<times> world" where
  "fetch_all_feeds env clock feeds w = fetch_all_feeds_from env clock feeds (Map.empty, w)"

section \<open>Python strings\<close>

text \<open>
  A \<open>str\<close> is modelled as a \<open>string\<close> whose characters are code points below 256.
  \<open>startswith\<close>, the substring test \<open>sub in s\<close>, \<open>str.lower\<close>, \<open>str.strip\<close>.
\<close>

fun startswith :: "string \<Rightarrow> string \<Rightarrow> bool" where
  "startswith s [] = True"
| "startswith [] (p # ps) = False"
| "startswith (c # cs) (p # ps) = (c = p \<and> startswith cs ps)"

fun str_in :: "string \<Rightarrow> string \<Rightarrow> bool" where
  "str_in sub [] = (sub = [])"
| "str_in sub (c # cs) = (startswith (c # cs) sub \<or> str_in sub cs)"

definition lower_char :: "char \<Rightarrow> char" where
  "lower_char c =
     (let n = (of_char c :: nat) in
      if (65 \<le> n \<and> n \<le> 90) \<or> (192 \<le> n \<and> n \<le> 222 \<and> n \<noteq> 215)
      then char_of (n + 32) else c)"

definition lower :: "string \<Rightarrow> string" where
  "lower s = map lower_char s"

definition is_space :: "char \<Rightarrow> bool" where
  "is_space c =
     (let n = (of_char c :: nat) in
      (9 \<le> n \<and> n \<le> 13) \<or> (28 \<le> n \<and> n \<le> 32) \<or> n = 133 \<or> n = 160)"

definition strip :: "string \<Rightarrow> string" where
  "strip s = rev (dropWhile is_space (rev (dropWhile is_space s)))"

section \<open>email_fetch.py: the HTML normalizer\<close>

text \<open>
  The fallback of _html_to_text, lines 312-315: \<open>re.sub(r"<[^>]+>", "", html_content)\<close>.
  A match starts at a \<open><\<close>, takes one or more characters other than \<open>></\<close> and
  the \<open>></\<close> that follows; the search goes on behind the match. A \<open><\<close> where the
  pattern does not match stays.
\<close>

function re_sub_tags :: "string \<Rightarrow> string" where
  "re_sub_tags [] = []"
| "re_sub_tags (c # cs) =
     (if c = CHR ''<''
         \<and> takeWhile (\<lambda>x. x \<noteq> CHR ''>'') cs \<noteq> []
         \<and> dropWhile (\<lambda>x. x \<noteq> CHR ''>'') cs \<noteq> []
      then re_sub_tags (tl (dropWhile (\<lambda>x. x \<noteq> CHR ''>'') cs))
      else c # re_sub_tags cs)"
  by pat_completeness auto
termination
proof (relation "measure length")
  show "wf (measure length)" by simp
next
  fix c :: char and cs :: string
  have "length (dropWhile (\<lambda>x. x \<noteq> CHR ''>'') cs) \<le> length cs"
    by (rule length_dropWhile_le)
  then show "(tl (dropWhile (\<lambda>x. x \<noteq> CHR ''>'') cs), c # cs) \<in> measure length"
    by simp
next
  fix c :: char and cs :: string
  show "(cs, c # cs) \<in> measure length" by simp
qed

text \<open>
  _extract_domain, lines 497-539. \<open>re.search(r"https?://(?:www\.)?([^/]+)", url)\<close>:
  \<open>match_here\<close> is the pattern anchored at the start of its argument, giving group 1;
  the optional \<open>www.\<close> is taken when the rest still matches, and left to the group
  otherwise. \<open>re_search_domain\<close> tries the positions from left to right.
\<close>

definition after_scheme :: "string \<Rightarrow> string option" where
  "after_scheme s =
     (if startswith s ''https://'' then Some (drop 8 s)
      else if startswith s ''http://'' then Some (drop 7 s)
      else None)"

definition match_here :: "string \<Rightarrow> string option" where
  "match_here s =
     (case after_scheme s of
        None \<Rightarrow> None
      | Some r \<Rightarrow>
          if startswith r ''www.'' \<and> takeWhile (\<lambda>x. x \<noteq> CHR ''/'') (drop 4 r) \<noteq> []
          then Some (takeWhile (\<lambda>x. x \<noteq> CHR ''/'') (drop 4 r))
          else if takeWhile (\<lambda>x. x \<noteq> CHR ''/'') r \<noteq> []
          then Some (takeWhile (\<lambda>x. x \<noteq> CHR ''/'') r)
          else None)"

fun re_search_domain :: "string \<Rightarrow> string option" where
  "re_search_domain [] = None"
| "re_search_domain (c # cs) =
     (case match_here (c # cs) of
        Some d \<Rightarrow> Some d
      | None \<Rightarrow> re_search_domain cs)"

definition tracking_prefixes :: "string list" where
  "tracking_prefixes =
     [''mail.'', ''link.'', ''click.'', ''track.'', ''go.'', ''em.'', ''newsletter.'', ''news.'']"

text \<open>
  The loop over the prefixes, lines 516-521: it returns from inside at the first prefix
  the domain starts with, unless nothing is left behind the prefix.
\<close>

fun strip_first_prefix :: "string list \<Rightarrow> string \<Rightarrow> string option" where
  "strip_first_prefix [] domain = None"
| "strip_first_prefix (p # ps) domain =
     (if startswith domain p \<and> drop (length p) domain \<noteq> []
      then Some (drop (length p) domain)
      else strip_first_prefix ps domain)"

definition service_name :: "string \<Rightarrow> string" where
  "service_name domain =
     (if str_in ''beehiiv'' domain then ''beehiiv.com''
      else if str_in ''mailchimp'' domain then ''mailchimp.com''
      else if str_in ''constantcontact'' domain then ''constantcontact.com''
      else if str_in ''sendgrid'' domain then ''sendgrid.com''
      else domain)"

definition extract_domain :: "string \<Rightarrow> string" where
  "extract_domain url =
     (case re_search_domain url of
        None \<Rightarrow> ''Link''
      | Some domain \<Rightarrow>
          (case strip_first_prefix tracking_prefixes domain of
             Some clean_domain \<Rightarrow> clean_domain
           | None \<Rightarrow> service_name domain))"

text \<open>
  The body of the loop over the \<open>a\<close> elements, lines 338-366: what happens to one link,
  given \<open>link.get("href")\<close> (\<open>None\<close> when the attribute is missing) and
  \<open>link.get_text()\<close>.
\<close>

datatype link_action = Decompose | ReplaceWith string

definition clean_link :: "string option \<Rightarrow> string \<Rightarrow> link_action" where
  "clean_link href_attr link_text =
     (let href = (case href_attr of Some h \<Rightarrow> h | None \<Rightarrow> []);
          text = strip link_text in
      if list_ex (\<lambda>skip. str_in skip (lower href))
           [''tracking'', ''pixel'', ''beacon'', ''unsubscribe'']
      then Decompose
      else if list_ex (\<lambda>skip. str_in skip (lower text))
           [''view in browser'', ''view image'', ''unsubscribe'']
      then Decompose
      else if length href > 100 \<and> (str_in ''beehiiv'' href \<or> str_in ''mail'' href)
      then (if text \<noteq> [] \<and> length text > 3
            then ReplaceWith (text @ '' ['' @ extract_domain href @ '']'')
            else ReplaceWith (''['' @ extract_domain href @ '']''))
      else if text \<noteq> [] then ReplaceWith text
      else Decompose)"

text \<open>
  The document tree that \<open>BeautifulSoup(html_content, "html.parser")\<close> builds: a text
  node, or a tag with its name, its attributes and its children. Comments and the like
  add nothing to \<open>get_text\<close> and are left out. \<open>get_text\<close> is the concatenation of
  the text nodes below a node, and \<open>find_all\<close> lists the tags of the given names at or
  below a node in document order, \<open>find_below\<close> those strictly below it.
\<close>

datatype node = Text string | Tag string "(string \<times> string) list" "node list"

primrec get_text :: "node \<Rightarrow> string" where
  "get_text (Text s) = s"
| "get_text (Tag name attrs kids) = concat (map get_text kids)"

primrec find_all :: "string list \<Rightarrow> node \<Rightarrow> node list" where
  "find_all names (Text s) = []"
| "find_all names (Tag name attrs kids) =
     (if name \<in> set names then [Tag name attrs kids] else [])
       @ concat (map (find_all names) kids)"

definition find_below :: "string list \<Rightarrow> node \<Rightarrow> node list" where
  "find_below names n =
     (case n of Text s \<Rightarrow> [] | Tag name attrs kids \<Rightarrow> concat (map (find_all names) kids))"

text \<open>The results of a loop over the children, up to the first that raises.\<close>

fun collect :: "(exn + 'a list) list \<Rightarrow> exn + 'a list" where
  "collect [] = Inr []"
| "collect (r # rs) =
     (case r of
        Inl ex \<Rightarrow> Inl ex
      | Inr xs \<Rightarrow> (case collect rs of Inl ex \<Rightarrow> Inl ex | Inr ys \<Rightarrow> Inr (xs @ ys)))"

text \<open>
  Lines 320-324: for each unwanted tag name, every element of that name is decomposed,
  that is, removed with all that is below it.
\<close>

primrec decompose_named :: "string \<Rightarrow> node \<Rightarrow> node list" where
  "decompose_named tag (Text s) = [Text s]"
| "decompose_named tag (Tag name attrs kids) =
     (if name = tag then []
      else [Tag name attrs (concat (map (decompose_named tag) kids))])"

definition unwanted_tags :: "string list" where
  "unwanted_tags = [''script'', ''style'', ''meta'', ''link'', ''head'', ''title'']"

definition remove_unwanted :: "node list \<Rightarrow> node list" where
  "remove_unwanted soup =
     fold (\<lambda>tag forest. concat (map (decompose_named tag) forest)) unwanted_tags soup"

text \<open>
  Lines 326-334: the tracking images. The loop runs over the list that \<open>find_all\<close> made
  before the first removal; when it comes to an element that went with a decomposed
  ancestor, \<open>img.get\<close> raises on it.
\<close>

definition is_tracking_img :: "(string \<times> string) list \<Rightarrow> bool" where
  "is_tracking_img attrs =
     (let src = (case map_of attrs ''src'' of Some s \<Rightarrow> s | None \<Rightarrow> []) in
      if list_ex (\<lambda>track. str_in track (lower src)) [''tracking'', ''pixel'', ''beacon'', ''1x1'']
      then True
      else map_of attrs ''width'' = Some ''1'' \<or> map_of attrs ''height'' = Some ''1'')"

primrec img_pass :: "node \<Rightarrow> exn + node list" where
  "img_pass (Text s) = Inr [Text s]"
| "img_pass (Tag name attrs kids) =
     (if name = ''img'' \<and> is_tracking_img attrs then
        (if concat (map (find_all [''img'']) kids) \<noteq> [] then Inl AttributeError else Inr [])
      else
        (case collect (map img_pass kids) of
           Inl ex \<Rightarrow> Inl ex
         | Inr kept \<Rightarrow> Inr [Tag name attrs kept]))"

text \<open>
  Lines 336-366: the links. An \<open>a\<close> element is decomposed or replaced by a text node,
  as \<open>clean_link\<close> says of its \<open>href\<close> and its text. The elements below one that was
  replaced are still visited, to no effect on the document; one below a decomposed
  element makes \<open>link.get\<close> raise.
\<close>

primrec link_pass :: "node \<Rightarrow> exn + node list" where
  "link_pass (Text s) = Inr [Text s]"
| "link_pass (Tag name attrs kids) =
     (if name = ''a'' then
        (case clean_link (map_of attrs ''href'') (concat (map get_text kids)) of
           Decompose \<Rightarrow>
             if concat (map (find_all [''a'']) kids) \<noteq> [] then Inl AttributeError else Inr []
         | ReplaceWith s \<Rightarrow>
             (case collect (map link_pass kids) of
                Inl ex \<Rightarrow> Inl ex
              | Inr detached \<Rightarrow> Inr [Text s]))
      else
        (case collect (map link_pass kids) of
           Inl ex \<Rightarrow> Inl ex
         | Inr kept \<Rightarrow> Inr [Tag name attrs kept]))"

text \<open>
  The loops of lines 368-394 replace each element of the given names by a text node
  made from the element; an element below one that was replaced is gone from the
  document when the loop comes to it.
\<close>

primrec replace_tags :: "string list \<Rightarrow> (node \<Rightarrow> string) \<Rightarrow> node \<Rightarrow> node" where
  "replace_tags names f (Text s) = Text s"
| "replace_tags names f (Tag name attrs kids) =
     (if name \<in> set names then Text (f (Tag name attrs kids))
      else Tag name attrs (map (replace_tags names f) kids))"

definition NL :: char where
  "NL = CHR 0x0A"

definition bullet :: char where
  "bullet = CHR 0x95"

fun join :: "string \<Rightarrow> string list \<Rightarrow> string" where
  "join sep [] = []"
| "join sep [x] = x"
| "join sep (x # y # ys) = x @ sep @ join sep (y # ys)"

text \<open>
  Lines 368-394, one definition per loop. The bullet of the list items, U+2022, is the
  one character of the code beyond 255; it is written as the character 149 here.
\<close>

definition heading_pass :: "nat \<Rightarrow> node list \<Rightarrow> node list" where
  "heading_pass i soup =
     map (replace_tags [''h'' @ [char_of (48 + i)]]
            (\<lambda>heading. [NL] @ replicate (min i 4) CHR ''#'' @ '' ''
                          @ strip (get_text heading) @ [NL, NL]))
         soup"

definition list_pass :: "node list \<Rightarrow> node list" where
  "list_pass soup =
     map (replace_tags [''ul'', ''ol'']
            (\<lambda>ul. [NL] @ join [NL] (map (\<lambda>li. [bullet] @ '' '' @ strip (get_text li))
                                       (find_below [''li''] ul)) @ [NL]))
         soup"

definition paragraph_pass :: "node list \<Rightarrow> node list" where
  "paragraph_pass soup = map (replace_tags [''p''] (\<lambda>p. [NL] @ strip (get_text p) @ [NL])) soup"

definition break_pass :: "node list \<Rightarrow> node list" where
  "break_pass soup = map (replace_tags [''br''] (\<lambda>br. [NL])) soup"

definition strong_pass :: "node list \<Rightarrow> node list" where
  "strong_pass soup =
     map (replace_tags [''strong'', ''b''] (\<lambda>strong. ''**'' @ strip (get_text strong) @ ''**'')) soup"

definition em_pass :: "node list \<Rightarrow> node list" where
  "em_pass soup =
     map (replace_tags [''em'', ''i''] (\<lambda>em. ''*'' @ strip (get_text em) @ ''*'')) soup"

definition render_passes :: "node list \<Rightarrow> node list" where
  "render_passes soup =
     em_pass (strong_pass (break_pass (paragraph_pass (list_pass
       (fold heading_pass [1, 2, 3, 4, 5, 6] soup)))))"

text \<open>
  Line 402, \<open>re.sub(r"\n\s*\n\s*\n+", "\n\n", text)\<close>: at a newline, when the run of
  whitespace behind it holds two more newlines, the match ends with the last newline of
  that run.
\<close>

definition through_last_nl :: "string \<Rightarrow> nat" where
  "through_last_nl w = length w - length (takeWhile (\<lambda>x. x \<noteq> NL) (rev w))"

function squeeze_blank_lines :: "string \<Rightarrow> string" where
  "squeeze_blank_lines [] = []"
| "squeeze_blank_lines (c # cs) =
     (if c = NL \<and> 2 \<le> length (filter (\<lambda>x. x = NL) (takeWhile is_space cs))
      then NL # NL # squeeze_blank_lines (drop (through_last_nl (takeWhile is_space cs)) cs)
      else c # squeeze_blank_lines cs)"
  by pat_completeness auto
termination
  by (relation "measure length") auto

text \<open>Line 403, \<open>re.sub(r"[ \t]+", " ", text)\<close>: a run of blanks and tabs becomes one blank.\<close>

definition is_blank :: "char \<Rightarrow> bool" where
  "is_blank c = (c = CHR '' '' \<or> c = CHR 0x09)"

fun squeeze_blanks :: "string \<Rightarrow> string" where
  "squeeze_blanks [] = []"
| "squeeze_blanks [c] = (if is_blank c then '' '' else [c])"
| "squeeze_blanks (c # d # cs) =
     (if is_blank c then (if is_blank d then squeeze_blanks (d # cs) else CHR '' '' # squeeze_blanks (d # cs))
      else c # squeeze_blanks (d # cs))"

text \<open>
  Line 404, \<open>re.sub(r"^\s+|\s+$", "", text, flags=re.MULTILINE)\<close>. The flag says
  whether the position is the start of a line. There the whole run of whitespace goes;
  elsewhere the run goes as far as the last place in it that is followed by a newline,
  or all of it at the end of the text.
\<close>

definition dollar_cut :: "string \<Rightarrow> string \<Rightarrow> nat option" where
  "dollar_cut run rest =
     (if rest = [] then Some (length run)
      else if NL \<in> set (tl run) then Some (length run - Suc (length (takeWhile (\<lambda>x. x \<noteq> NL) (rev (tl run)))))
      else None)"

function trim_lines :: "bool \<Rightarrow> string \<Rightarrow> string" where
  "trim_lines bol [] = []"
| "trim_lines bol (c # cs) =
     (if is_space c then
        (if bol then
           trim_lines (last (takeWhile is_space (c # cs)) = NL) (dropWhile is_space (c # cs))
         else
           (case dollar_cut (takeWhile is_space (c # cs)) (dropWhile is_space (c # cs)) of
              Some k \<Rightarrow>
                trim_lines (takeWhile is_space (c # cs) ! (k - 1) = NL) (drop (Suc (k - 1)) (c # cs))
            | None \<Rightarrow> c # trim_lines (c = NL) cs))
      else c # trim_lines False cs)"
  by pat_completeness auto
termination
proof (relation "measure (\<lambda>p. length (snd p))")
  show "wf (measure (\<lambda>p. length (snd p)))" by simp
next
  fix bol :: bool and c :: char and cs :: string
  assume "is_space c"
  then have "dropWhile is_space (c # cs) = dropWhile is_space cs" by simp
  moreover have "length (dropWhile is_space cs) \<le> length cs" by (rule length_dropWhile_le)
  ultimately show "((last (takeWhile is_space (c # cs)) = NL, dropWhile is_space (c # cs)), bol, c # cs)
      \<in> measure (\<lambda>p. length (snd p))"
    by simp
next
  fix bol :: bool and c :: char and cs :: string and k :: nat
  show "((takeWhile is_space (c # cs) ! (k - 1) = NL, drop (Suc (k - 1)) (c # cs)), bol, c # cs)
      \<in> measure (\<lambda>p. length (snd p))"
    by simp
next
  fix bol :: bool and c :: char and cs :: string
  show "((c = NL, cs), bol, c # cs) \<in> measure (\<lambda>p. length (snd p))" by simp
next
  fix bol :: bool and c :: char and cs :: string
  show "((False, cs), bol, c # cs) \<in> measure (\<lambda>p. length (snd p))" by simp
qed

text \<open>\<open>text.split("\n")\<close>, \<open>line.split()\<close> and \<open>word.strip("()")\<close>.\<close>

primrec split_on :: "char \<Rightarrow> string \<Rightarrow> string list" where
  "split_on sep [] = [[]]"
| "split_on sep (c # cs) =
     (if c = sep then [] # split_on sep cs
      else (case split_on sep cs of
              [] \<Rightarrow> [[c]]
            | l # ls \<Rightarrow> (c # l) # ls))"

fun split_ws :: "string \<Rightarrow> string \<Rightarrow> string list" where
  "split_ws cur [] = (if cur = [] then [] else [cur])"
| "split_ws cur (c # cs) =
     (if is_space c then (if cur = [] then split_ws [] cs else cur # split_ws [] cs)
      else split_ws (cur @ [c]) cs)"

definition is_paren :: "char \<Rightarrow> bool" where
  "is_paren c = (c = CHR ''('' \<or> c = CHR '')'')"

definition strip_parens :: "string \<Rightarrow> string" where
  "strip_parens w = rev (dropWhile is_paren (rev (dropWhile is_paren w)))"

definition cruft :: "string list" where
  "cruft =
     [''view in browser'', ''view image:'', ''view image'', ''follow image link:'',
      ''follow image link'', ''unsubscribe'', ''forwarded this email'',
      ''you received this email'', ''caption:'', ''download your kit here'', ''click here'',
      ''read more'', ''beehiiv.com'', ''mail.beehiiv.com'', ''link.mail.beehiiv.com'']"

text \<open>
  Lines 457-477: the loop over the words of a line; \<open>None\<close> when the line is to be
  skipped.
\<close>

fun clean_words :: "string \<Rightarrow> string list \<Rightarrow> string list \<Rightarrow> string list option" where
  "clean_words line [] cleaned_words = Some cleaned_words"
| "clean_words line (w # ws) cleaned_words =
     (let word = strip_parens w in
      if startswith word ''https://'' \<and> length word > 50 then
        (if 2 * length word > length line then None
         else clean_words line ws (cleaned_words @ [''['' @ extract_domain word @ '']'']))
      else if str_in ''beehiiv.com'' word \<or> str_in ''mail.beehiiv.com'' word then
        clean_words line ws cleaned_words
      else clean_words line ws (cleaned_words @ [word]))"

text \<open>Lines 409-493: the body of the loop over the lines; \<open>None\<close> when the line is dropped.\<close>

definition clean_line :: "string \<Rightarrow> string option" where
  "clean_line raw =
     (let line = strip raw in
      if line = [] then None
      else if list_ex (\<lambda>skip. str_in skip (lower line)) cruft then None
      else if startswith line ''https://'' \<and> length line > 100 then None
      else if startswith line ''(https://'' \<and> length line > 100 then None
      else if (str_in ''beehiiv.com'' line \<or> str_in ''mail.'' line) \<and> length line > 150 then None
      else if length (filter (\<lambda>c. c = CHR ''/'' \<or> c = CHR ''='' \<or> c = CHR ''&'' \<or> c = CHR ''?'') line) > 10
      then None
      else
        (case clean_words line (split_ws [] line) [] of
           None \<Rightarrow> None
         | Some cleaned_words \<Rightarrow>
             (let cleaned_line = join '' '' cleaned_words in
              if cleaned_line \<in> set [''----------'', ''======'', ''------'', ''=====''] then None
              else if cleaned_line \<noteq> []
                      \<and> length (strip (filter (\<lambda>c. c \<noteq> CHR ''['' \<and> c \<noteq> CHR '']'') cleaned_line)) > 10
              then Some cleaned_line
              else None)))"

text \<open>Lines 399-495: from the text of the document to the result.\<close>

definition clean_text :: "string \<Rightarrow> string" where
  "clean_text text =
     strip (join [NL]
       (List.map_filter clean_line
          (split_on NL (trim_lines True (squeeze_blanks (squeeze_blank_lines text))))))"

text \<open>
  What _html_to_text asks of the library: whether \<open>from bs4 import BeautifulSoup\<close>
  succeeds, and the parse of line 318, which gives the children of the document or
  raises.
\<close>

record html_env =
  bs4_importable :: bool
  BeautifulSoup :: "string \<Rightarrow> exn + node list"

text \<open>
  _html_to_text, lines 308-495. Only the import is inside a \<open>try\<close>; an exception of
  any later step leaves the function.
\<close>

definition html_to_text :: "'more html_env_scheme \<Rightarrow> string \<Rightarrow> exn + string" where
  "html_to_text env html_content =
     (if \<not> bs4_importable env then Inr (strip (re_sub_tags html_content))
      else
        case BeautifulSoup env html_content of
          Inl ex \<Rightarrow> Inl ex
        | Inr soup \<Rightarrow>
            (case collect (map img_pass (remove_unwanted soup)) of
               Inl ex \<Rightarrow> Inl ex
             | Inr soup1 \<Rightarrow>
                 (case collect (map link_pass soup1) of
                    Inl ex \<Rightarrow> Inl ex
                  | Inr soup2 \<Rightarrow>
                      Inr (clean_text (concat (map get_text (render_passes soup2)))))))"

section \<open>email_fetch.py: one message\<close>

text \<open>
  A message part of the mailbox API: the MIME type, the headers, \<open>body["data"]\<close> and
  the child parts; \<open>None\<close> is a key that is not there. A message has its id, the
  number \<open>int(internalDate)\<close> and the top part.
\<close>

datatype payload =
  Payload (mimeType: string) (headers: "(string \<times> string) list option")
    (body_data: "string option") (parts: "payload list option")

record message =
  msg_id :: string
  internalDate :: "int option"
  msg_payload :: payload

text \<open>
  What the mail pipeline asks of its libraries, besides BeautifulSoup:
  \<open>base64.urlsafe_b64decode(data).decode("utf-8", errors="ignore")\<close>,
  \<open>email.utils.parsedate_to_datetime\<close>, \<open>datetime.fromtimestamp\<close> of the internal
  date (in milliseconds), and the two calls of the mailbox API,
  \<open>messages().list(userId, q, maxResults)\<close> giving the ids of \<open>results.get("messages", [])\<close>
  and \<open>messages().get(userId, id, format)\<close>.
\<close>

record mail_env = html_env +
  b64decode_utf8 :: "string \<Rightarrow> exn + string"
  parsedate_to_datetime :: "string \<Rightarrow> exn + datetime"
  fromtimestamp :: "int \<Rightarrow> datetime"
  messages_list :: "string \<Rightarrow> nat \<Rightarrow> exn + string list"
  messages_get :: "string \<Rightarrow> exn + message"

definition get_data :: "payload \<Rightarrow> string" where
  "get_data p = (case body_data p of Some d \<Rightarrow> d | None \<Rightarrow> [])"

text \<open>
  Lines 262-274: the loop over \<open>payload["parts"]\<close>, with \<open>body\<close> and \<open>html_body\<close> as
  its state. It reads the MIME type and the data of each part of the list, and never
  the parts of a part.
\<close>

fun collect_parts ::
  "(string \<Rightarrow> exn + string) \<Rightarrow> payload list \<Rightarrow> string \<times> string \<Rightarrow> exn + string \<times> string" where
  "collect_parts dec [] acc = Inr acc"
| "collect_parts dec (p # ps) acc =
     (if mimeType p = ''text/plain'' then
        (if get_data p \<noteq> [] then
           (case dec (get_data p) of
              Inl ex \<Rightarrow> Inl ex
            | Inr s \<Rightarrow> collect_parts dec ps (fst acc @ s, snd acc))
         else collect_parts dec ps acc)
      else if mimeType p = ''text/html'' then
        (if get_data p \<noteq> [] then
           (case dec (get_data p) of
              Inl ex \<Rightarrow> Inl ex
            | Inr s \<Rightarrow> collect_parts dec ps (fst acc, snd acc @ s))
         else collect_parts dec ps acc)
      else collect_parts dec ps acc)"

text \<open>Lines 276-286: a payload without the key \<open>parts\<close>.\<close>

definition single_part :: "(string \<Rightarrow> exn + string) \<Rightarrow> payload \<Rightarrow> exn + string \<times> string" where
  "single_part dec p =
     (if mimeType p = ''text/plain'' \<or> mimeType p = ''text/html'' then
        (if get_data p \<noteq> [] then
           (case dec (get_data p) of
              Inl ex \<Rightarrow> Inl ex
            | Inr content \<Rightarrow>
                if mimeType p = ''text/html'' then Inr ([], content) else Inr (content, []))
         else Inr ([], []))
      else Inr ([], []))"

definition scan_payload :: "(string \<Rightarrow> exn + string) \<Rightarrow> payload \<Rightarrow> exn + string \<times> string" where
  "scan_payload dec p =
     (case parts p of
        Some ps \<Rightarrow> collect_parts dec ps ([], [])
      | None \<Rightarrow> single_part dec p)"

text \<open>_extract_email_body, lines 257-296.\<close>

definition extract_email_body :: "'more mail_env_scheme \<Rightarrow> payload \<Rightarrow> exn + string" where
  "extract_email_body env p =
     (case scan_payload (b64decode_utf8 env) p of
        Inl ex \<Rightarrow> Inl ex
      | Inr bodies \<Rightarrow>
          if fst bodies \<noteq> [] then Inr (strip (fst bodies))
          else if snd bodies \<noteq> [] then
            (case html_to_text env (snd bodies) of
               Inl ex \<Rightarrow> Inl ex
             | Inr final_body \<Rightarrow> Inr (strip final_body))
          else Inr (strip []))"

text \<open>
  The dictionary \<open>{h["name"]: h["value"] for h in headers}\<close>: of two headers with one
  name the later one stays.
\<close>

definition headers_get :: "(string \<times> string) list \<Rightarrow> string \<Rightarrow> string \<Rightarrow> string" where
  "headers_get hs name dflt = (case map_of (rev hs) name of Some v \<Rightarrow> v | None \<Rightarrow> dflt)"

record email_data = item +
  sender :: string
  message_id :: string

text \<open>
  Lines 215-228: the date. Any exception of the header's parse leads to the internal
  date, and an internal date of 0 (or none) to the clock.
\<close>

definition email_published ::
  "'more mail_env_scheme \<Rightarrow> (nat \<Rightarrow> datetime) \<Rightarrow> world \<Rightarrow> message \<Rightarrow> string
     \<Rightarrow> datetime \<times> world" where
  "email_published env clock w m date_str =
     (case parsedate_to_datetime env date_str of
        Inr d \<Rightarrow> (d, w)
      | Inl ex \<Rightarrow>
          (let internal_date = (case internalDate m of Some n \<Rightarrow> n | None \<Rightarrow> 0) in
           if internal_date \<noteq> 0 then (fromtimestamp env internal_date, w)
           else (clock (ticks w), tick w)))"

text \<open>parse_email_content, lines 209-245; the world is returned for the clock's sake.\<close>

definition parse_email_content ::
  "'more mail_env_scheme \<Rightarrow> (nat \<Rightarrow> datetime) \<Rightarrow> world \<Rightarrow> message
     \<Rightarrow> (exn + email_data) \<times> world" where
  "parse_email_content env clock w m =
     (let hs = (case headers (msg_payload m) of Some h \<Rightarrow> h | None \<Rightarrow> []);
          subject = headers_get hs ''Subject'' ''No Subject'';
          from = headers_get hs ''From'' ''Unknown Sender'';
          date_str = headers_get hs ''Date'' [];
          pw = email_published env clock w m date_str
      in case extract_email_body env (msg_payload m) of
           Inl ex \<Rightarrow> (Inl ex, snd pw)
         | Inr body \<Rightarrow>
             (Inr \<lparr>title = subject, link = ''local://email/'' @ msg_id m,
                   published = fst pw, summary = body, source = ''email'',
                   sender = from, message_id = msg_id m\<rparr>,
              snd pw))"

section \<open>email_fetch.py: one cycle over the mailbox\<close>

text \<open>search_emails, lines 146-168, and get_message_details, lines 180-196.\<close>

definition search_emails ::
  "'more mail_env_scheme \<Rightarrow> bool \<Rightarrow> string \<Rightarrow> nat \<Rightarrow> string list" where
  "search_emails env authenticated query max_results =
     (if \<not> authenticated then []
      else case messages_list env query max_results of
             Inl ex \<Rightarrow> []
           | Inr messages \<Rightarrow> messages)"

definition get_message_details ::
  "'more mail_env_scheme \<Rightarrow> bool \<Rightarrow> string \<Rightarrow> message option" where
  "get_message_details env authenticated mid =
     (if \<not> authenticated then None
      else case messages_get env mid of
             Inl ex \<Rightarrow> None
           | Inr m \<Rightarrow> Some m)"

text \<open>Lines 579-615: the body of the loop over the messages found.\<close>

definition process_message ::
  "'more mail_env_scheme \<Rightarrow> (nat \<Rightarrow> datetime) \<Rightarrow> bool \<Rightarrow> world \<times> item list \<Rightarrow> string
     \<Rightarrow> world \<times> item list" where
  "process_message env clock authenticated st mid =
     (case get_message_details env authenticated mid of
        None \<Rightarrow> st
      | Some m \<Rightarrow>
          (case parse_email_content env clock (fst st) m of
             (Inl ex, w1) \<Rightarrow> (say (ItemError ex) w1, snd st)
           | (Inr d, w1) \<Rightarrow>
               (let it = \<lparr>title = title d, link = link d, published = published d,
                          summary = summary d, source = source d\<rparr>
                in case session_add_commit clock w1 it of
                     Inl ex \<Rightarrow>
                       if ex = IntegrityError
                       then (say (DuplicateSkipped mid) w1, snd st)
                       else (say (ItemError ex) w1, snd st)
                   | Inr w2 \<Rightarrow> (say (Added it) w2, snd st @ [it]))))"

fun process_messages ::
  "'more mail_env_scheme \<Rightarrow> (nat \<Rightarrow> datetime) \<Rightarrow> bool \<Rightarrow> world \<times> item list
     \<Rightarrow> string list \<Rightarrow> world \<times> item list" where
  "process_messages env clock authenticated st [] = st"
| "process_messages env clock authenticated st (mid # mids) =
     process_messages env clock authenticated
       (process_message env clock authenticated st mid) mids"

text \<open>The query of lines 562-570, with \<open>f"{days_back}"\<close> as a decimal numeral.\<close>

record mail_config =
  EMAIL_FETCH_ALL_NEWSLETTERS :: bool
  EMAIL_SOURCES :: "string list"
  EMAIL_FETCH_DAYS_BACK :: int

function str_nat :: "nat \<Rightarrow> string" where
  "str_nat n =
     (if n < 10 then [char_of (48 + n)]
      else str_nat (n div 10) @ [char_of (48 + n mod 10)])"
  by pat_completeness auto
termination
  by (relation "measure id") auto

definition str_int :: "int \<Rightarrow> string" where
  "str_int i = (if i < 0 then CHR ''-'' # str_nat (nat (- i)) else str_nat (nat i))"

definition build_query :: "mail_config \<Rightarrow> int \<Rightarrow> string" where
  "build_query cfg days_back =
     (if EMAIL_FETCH_ALL_NEWSLETTERS cfg then ''newer_than:'' @ str_int days_back @ ''d''
      else ''('' @ join '' OR '' (map (\<lambda>src. ''from:'' @ src) (EMAIL_SOURCES cfg))
           @ '') newer_than:'' @ str_int days_back @ ''d'')"

text \<open>fetch_newsletter_emails, lines 551-621: the new items and the world afterwards.\<close>

definition fetch_newsletter_emails ::
  "'more mail_env_scheme \<Rightarrow> (nat \<Rightarrow> datetime) \<Rightarrow> mail_config \<Rightarrow> bool \<Rightarrow> int option
     \<Rightarrow> world \<Rightarrow> item list \<times> world" where
  "fetch_newsletter_emails env clock cfg authenticated days_back w =
     (if \<not> authenticated then ([], w)
      else
        (let days = (case days_back of Some d \<Rightarrow> d | None \<Rightarrow> EMAIL_FETCH_DAYS_BACK cfg);
             query = build_query cfg days;
             messages = search_emails env authenticated query 100;
             st = process_messages env clock authenticated (w, []) messages
         in (snd st, fst st)))"

section \<open>Concrete inputs\<close>

text \<open>A clock, an empty table and the entry of the round-trip scenario.\<close>

definition demo_clock :: "nat \<Rightarrow> datetime" where
  "demo_clock n =
     \<lparr>dt_year = 2024, dt_month = 5, dt_day = 17, dt_hour = 12, dt_minute = 0, dt_second = 0,
      dt_microsecond = int n\<rparr>"

definition empty_world :: world where
  "empty_world = \<lparr>rows = [], ticks = 0, events = []\<rparr>"

definition demo_entry :: entry where
  "demo_entry =
     \<lparr>entry_title = Some ''Fed raises rates'', entry_link = Some ''https://example.com/a'',
      entry_summary = Some ''...'', entry_description = None,
      published_parsed = None, updated_parsed = None\<rparr>"

definition demo_item :: item where
  "demo_item =
     \<lparr>title = ''Fed raises rates'', link = ''https://example.com/a'',
      published = demo_clock 0, summary = ''...'', source = ''Feed''\<rparr>"

definition demo_world :: world where
  "demo_world =
     \<lparr>rows = [stored demo_item 1 (demo_clock 1)], ticks = 2, events = [Added demo_item]\<rparr>"

text \<open>Entries with both dates, without a link, with an empty title.\<close>

definition demo_pub :: struct_time where
  "demo_pub =
     \<lparr>tm_year = 2024, tm_mon = 2, tm_mday = 29, tm_hour = 8, tm_min = 30, tm_sec = 0,
      tm_wday = 3, tm_yday = 60, tm_isdst = 0\<rparr>"

definition demo_upd :: struct_time where
  "demo_upd =
     \<lparr>tm_year = 2024, tm_mon = 3, tm_mday = 1, tm_hour = 9, tm_min = 0, tm_sec = 0,
      tm_wday = 4, tm_yday = 61, tm_isdst = 0\<rparr>"

definition demo_dated :: entry where
  "demo_dated =
     \<lparr>entry_title = Some ''Dated'', entry_link = Some ''https://example.com/b'',
      entry_summary = None, entry_description = Some ''text'',
      published_parsed = Some demo_pub, updated_parsed = Some demo_upd\<rparr>"


definition demo_untitled :: entry where
  "demo_untitled =
     \<lparr>entry_title = Some [], entry_link = Some ''https://example.com/c'',
      entry_summary = None, entry_description = None,
      published_parsed = None, updated_parsed = None\<rparr>"

text \<open>
  Messages of a mailbox, and the libraries on them: the decoder knows three strings and
  the parser the few documents listed, with the tree that html.parser builds of each;
  it rejects every other input.
\<close>

definition demo_b64 :: "string \<Rightarrow> exn + string" where
  "demo_b64 s =
     (if s = ''aGVsbG8='' then Inr ''hello''
      else if s = ''PGI-aGk8L2I-'' then Inr ''<b>hi</b>''
      else if s = ''PHA-SGVsbG8gZnJvbSB0aGUgPGI-bmV3c2xldHRlcjwvYj48L3A-''
      then Inr ''<p>Hello from the <b>newsletter</b></p>''
      else Inl ValueError)"

definition plain_part :: payload where
  "plain_part = Payload ''text/plain'' None (Some ''aGVsbG8='') None"

definition html_part :: payload where
  "html_part = Payload ''text/html'' None (Some ''PGI-aGk8L2I-'') None"

definition newsletter_part :: payload where
  "newsletter_part =
     Payload ''text/html'' None
       (Some ''PHA-SGVsbG8gZnJvbSB0aGUgPGI-bmV3c2xldHRlcjwvYj48L3A-'') None"

definition demo_message :: message where
  "demo_message =
     \<lparr>msg_id = ''18c2f0a1'', internalDate = Some 1700000000000,
      msg_payload =
        Payload ''multipart/alternative''
          (Some [(''From'', ''news@example.com''), (''Subject'', ''Weekly digest'')])
          None (Some [plain_part, html_part])\<rparr>"

definition demo_blank_subject :: message where
  "demo_blank_subject =
     \<lparr>msg_id = ''18c2f0a2'', internalDate = Some 1700000000000,
      msg_payload = Payload ''text/plain'' (Some [(''Subject'', [])]) (Some ''aGVsbG8='') None\<rparr>"

text \<open>
  Three links with long targets: a redirector of a newsletter platform, a redirector
  under a tracking subdomain, and an unsubscribe link.
\<close>

definition beehiiv_href :: string where
  "beehiiv_href = ''https://link.mail.beehiiv.com/ss/c/u001.Zx4mQpLr8sTvWy3aBcDeFgHiJkLmNoPq/4g7/Rt5YhN2kQ0uVwXyZaBcDeFgHiJ/h12/h001.AbCdEfGhIjKlMnOpQrStUvWxYz0123456789abcd''"

definition mail_href :: string where
  "mail_href = ''https://mail.example.com/c/eJwVjDsOwyAQBU9Dl6wFBsMWKXKAKDfYD2tHyBbI4vau5hXzZnTfJWPnFi0FQdt7Gy2Aq5UxJ9YbA3mciwmSeQ2lQq5cRrZtPYXkDE''"

definition unsubscribe_href :: string where
  "unsubscribe_href = ''https://mail.example.com/unsubscribe/eJwVjDsOwyAQBU9Dl6wFBsMWKXKAKDfYD2tHyBbI4vau5hXzZnTfJWPnFi0FQdt7Gy2Aq5UxJ9YbA3mciwmSeQ2lQq5c''"

definition report_html :: "string \<Rightarrow> string" where
  "report_html href = ''<a href='' @ [CHR 0x22] @ href @ [CHR 0x22] @ ''>Read the report</a>''"

definition demo_parse :: "string \<Rightarrow> exn + node list" where
  "demo_parse html =
     (if html = ''<b>hi</b>'' then Inr [Tag ''b'' [] [Text ''hi'']]
      else if html = ''<p>Hello from the <b>newsletter</b></p>''
      then Inr [Tag ''p'' [] [Text ''Hello from the '', Tag ''b'' [] [Text ''newsletter'']]]
      else if html = report_html mail_href
      then Inr [Tag ''a'' [(''href'', mail_href)] [Text ''Read the report'']]
      else if html = report_html beehiiv_href
      then Inr [Tag ''a'' [(''href'', beehiiv_href)] [Text ''Read the report'']]
      else if html = report_html unsubscribe_href
      then Inr [Tag ''a'' [(''href'', unsubscribe_href)] [Text ''Read the report'']]
      else Inl ParserRejectedMarkup)"

definition demo_env :: mail_env where
  "demo_env =
     \<lparr>bs4_importable = True,
      BeautifulSoup = demo_parse,
      b64decode_utf8 = demo_b64,
      parsedate_to_datetime = (\<lambda>s. Inl ValueError),
      fromtimestamp = (\<lambda>ms. demo_clock 0),
      messages_list = (\<lambda>q n. Inr (take n [''18c2f0a1'', ''18c2f0a2''])),
      messages_get = (\<lambda>mid. if mid = ''18c2f0a1'' then Inr demo_message
                            else if mid = ''18c2f0a2'' then Inr demo_blank_subject
                            else Inl HttpError)\<rparr>"

definition demo_notitle :: entry where
  "demo_notitle =
     \<lparr>entry_title = None, entry_link = Some ''https://example.com/d'',
      entry_summary = None, entry_description = None,
      published_parsed = None, updated_parsed = None\<rparr>"

definition demo_nosubject :: message where
  "demo_nosubject =
     \<lparr>msg_id = ''18c2f0a3'', internalDate = None,
      msg_payload = Payload ''text/plain'' None (Some ''aGVsbG8='') None\<rparr>"

text \<open>
  Three feeds, the second of which times out; the content of a feed stands for itself,
  and each of the other two has one entry.
\<close>

definition demo_feeds :: "(string \<times> string) list" where
  "demo_feeds =
     [(''Alpha'', ''https://alpha.example/rss''),
      (''Beta'', ''https://beta.example/rss''),
      (''Gamma'', ''https://gamma.example/rss'')]"

definition demo_feed_env :: feed_env where
  "demo_feed_env =
     \<lparr>requests_get = (\<lambda>url. if url = ''https://beta.example/rss'' then Inl RequestException
                             else Inr url),
      feedparser_parse = (\<lambda>content. if content = ''https://alpha.example/rss'' then [demo_entry]
                                      else [demo_dated])\<rparr>"

text \<open>
  A message with an attachment: the two text alternatives are the parts of a part.
\<close>

definition nested_payload :: payload where
  "nested_payload =
     Payload ''multipart/mixed'' (Some [(''Subject'', ''Report attached'')]) None
       (Some [Payload ''multipart/alternative'' None None (Some [plain_part, html_part]),
              Payload ''application/pdf'' None (Some ''JVBERi0='') None])"

definition html_only_payload :: payload where
  "html_only_payload =
     Payload ''multipart/alternative'' None None
       (Some [Payload ''text/plain'' None None None, newsletter_part])"

definition demo_decoded :: "string \<Rightarrow> string" where
  "demo_decoded s =
     (if s = ''aGVsbG8='' then ''hello''
      else if s = ''PGI-aGk8L2I-'' then ''<b>hi</b>''
      else if s = ''PHA-SGVsbG8gZnJvbSB0aGUgPGI-bmV3c2xldHRlcjwvYj48L3A-''
      then ''<p>Hello from the <b>newsletter</b></p>''
      else [])"

section \<open>Notions the claims speak of\<close>

text \<open>
  An entry is parseable when building its date does not raise; it has a link when the
  link is a non-empty string. An event is a submission when it reports the outcome of
  \<open>session.add\<close> and \<open>session.commit\<close>.
\<close>

definition date_ok :: "struct_time \<Rightarrow> bool" where
  "date_ok t = (case datetime_of t of Inl ex \<Rightarrow> False | Inr d \<Rightarrow> True)"

definition parseable :: "entry \<Rightarrow> bool" where
  "parseable e =
     (case published_parsed e of
        Some t \<Rightarrow> date_ok t
      | None \<Rightarrow> (case updated_parsed e of Some u \<Rightarrow> date_ok u | None \<Rightarrow> True))"

definition has_link :: "entry \<Rightarrow> bool" where
  "has_link e = (get_link e \<noteq> [])"

fun submitted :: "event \<Rightarrow> bool" where
  "submitted (Added it) = True"
| "submitted (DuplicateSkipped t) = True"
| "submitted ev = False"


text \<open>
  The parts that _extract_email_body reads: the children of a payload that has the key
  \<open>parts\<close>, the payload itself otherwise; and the text of one MIME type among them,
  given what the decoder makes of each part's data.
\<close>

definition direct_parts :: "payload \<Rightarrow> payload list" where
  "direct_parts p = (case parts p of Some ps \<Rightarrow> ps | None \<Rightarrow> [p])"

definition typed_text :: "(string \<Rightarrow> string) \<Rightarrow> string \<Rightarrow> payload list \<Rightarrow> string" where
  "typed_text decoded mime_type ps =
     concat (map (\<lambda>q. decoded (get_data q))
               (filter (\<lambda>q. mimeType q = mime_type \<and> get_data q \<noteq> []) ps))"

text \<open>
  The body as the specification words it: all parts of the message, nested ones
  included, are scanned; the plain-text parts are preferred if there is one, then the
  HTML parts through the normalizer, and else the body is empty.
\<close>

primrec all_parts :: "payload \<Rightarrow> payload list" where
  "all_parts (Payload mt hs d ps) =
     Payload mt hs d ps
       # concat (case map_option (map all_parts) ps of None \<Rightarrow> [] | Some found \<Rightarrow> found)"

fun decode_all :: "(string \<Rightarrow> exn + string) \<Rightarrow> payload list \<Rightarrow> exn + string" where
  "decode_all dec [] = Inr []"
| "decode_all dec (q # qs) =
     (case dec (get_data q) of
        Inl ex \<Rightarrow> Inl ex
      | Inr s \<Rightarrow> (case decode_all dec qs of Inl ex \<Rightarrow> Inl ex | Inr rest \<Rightarrow> Inr (s @ rest)))"

definition body_as_specified :: "'more mail_env_scheme \<Rightarrow> payload \<Rightarrow> exn + string" where
  "body_as_specified env p =
     (let plain_parts = filter (\<lambda>q. mimeType q = ''text/plain'') (all_parts p);
          html_parts = filter (\<lambda>q. mimeType q = ''text/html'') (all_parts p)
      in if plain_parts \<noteq> [] then decode_all (b64decode_utf8 env) plain_parts
         else if html_parts \<noteq> [] then
           (case decode_all (b64decode_utf8 env) html_parts of
              Inl ex \<Rightarrow> Inl ex
            | Inr html \<Rightarrow> html_to_text env html)
         else Inr [])"

section \<open>The store and the feed loop\<close>

lemma session_add_commit_duplicate:
  "link it \<in> set (map link (rows w)) \<Longrightarrow> session_add_commit clock w it = Inl IntegrityError"
  by (simp add: session_add_commit_def)

lemma session_add_commit_cases:
  "session_add_commit clock w it = Inl IntegrityError \<and> link it \<in> set (map link (rows w))
   \<or> session_add_commit clock w it =
        Inr (w\<lparr>rows := rows w @ [stored it (next_id (rows w)) (clock (ticks w))],
               ticks := Suc (ticks w)\<rparr>) \<and> link it \<notin> set (map link (rows w))"
  by (simp add: session_add_commit_def)

lemma link_stored [simp]: "link (stored it n c) = link it"
  by (simp add: stored_def)

lemma title_stored [simp]: "title (stored it n c) = title it"
  by (simp add: stored_def)

lemma rows_say [simp]: "rows (say ev w) = rows w"
  by (simp add: say_def)

lemma rows_tick [simp]: "rows (tick w) = rows w"
  by (simp add: tick_def)

lemma ticks_say [simp]: "ticks (say ev w) = ticks w"
  by (simp add: say_def)

lemma events_say [simp]: "events (say ev w) = events w @ [ev]"
  by (simp add: say_def)

lemma events_tick [simp]: "events (tick w) = events w"
  by (simp add: tick_def)

lemma ticks_tick [simp]: "ticks (tick w) = Suc (ticks w)"
  by (simp add: tick_def)

lemma distinct_filter_key:
  "distinct (map f xs) \<Longrightarrow> r \<in> set xs \<Longrightarrow> filter (\<lambda>x. f x = f r) xs = [r]"
proof (induction xs)
  case Nil
  then show ?case by simp
next
  case (Cons a xs)
  have notin: "f a \<notin> f ` set xs" and dist: "distinct (map f xs)"
    using Cons.prems(1) by simp_all
  show ?case
  proof (cases "a = r")
    case True
    have "\<forall>x\<in>set xs. f x \<noteq> f r"
      using notin True by (metis imageI)
    then have "filter (\<lambda>x. f x = f r) xs = []"
      by (simp add: filter_empty_conv)
    with True show ?thesis by simp
  next
    case False
    with Cons.prems(2) have r: "r \<in> set xs" by simp
    with notin have "f a \<noteq> f r" by (metis imageI)
    moreover have "filter (\<lambda>x. f x = f r) xs = [r]"
      using Cons.IH dist r by simp
    ultimately show ?thesis by simp
  qed
qed

lemma process_entry_duplicate:
  assumes "candidate source_name (clock (ticks w)) e = Inr (Some it)"
    and "link it \<in> set (map link (rows w))"
  shows "process_entry clock source_name (w, new) e =
           (say (DuplicateSkipped (get_title e)) (tick w), new)"
  using assms by (simp add: process_entry_def session_add_commit_def)

text \<open>
  Claim C1. A second insert with the link of a row that is already stored raises
  \<open>IntegrityError\<close>; the loop logs it as a duplicate, not as an error, leaves every row
  as it was, so that the row found under that link is still the one stored first and the
  only one, and goes on with the rest of the batch.
\<close>

theorem insert_dedup_idempotent:
  assumes inv: "distinct (map link (rows w))"
    and first: "r \<in> set (rows w)"
    and second: "candidate source_name (clock (ticks w)) e = Inr (Some it)"
    and key: "link it = link r"
  shows "session_add_commit clock (tick w) it = Inl IntegrityError
       \<and> process_entry clock source_name (w, new) e =
           (say (DuplicateSkipped (get_title e)) (tick w), new)
       \<and> rows (fst (process_entry clock source_name (w, new) e)) = rows w
       \<and> filter (\<lambda>x. link x = link it) (rows (fst (process_entry clock source_name (w, new) e))) = [r]
       \<and> process_entries clock source_name (w, new) (e # es) =
           process_entries clock source_name
             (say (DuplicateSkipped (get_title e)) (tick w), new) es"
proof -
  have mem: "link it \<in> set (map link (rows w))"
    using first key by force
  have step: "process_entry clock source_name (w, new) e =
                (say (DuplicateSkipped (get_title e)) (tick w), new)"
    using second mem by (rule process_entry_duplicate)
  have one: "filter (\<lambda>x. link x = link r) (rows w) = [r]"
    by (rule distinct_filter_key [OF inv first])
  show ?thesis
    using mem step one key by (simp add: session_add_commit_def)
qed

lemmas eval_feed =
  process_entry_def candidate_def resolve_published_def get_title_def get_link_def
  get_summary_def session_add_commit_def next_id_def say_def tick_def

text \<open>
  The round trip: the same entry twice, starting from the empty table, leaves one row.
\<close>

theorem insert_dedup_idempotent_witness:
  "process_entries demo_clock ''Feed'' (empty_world, []) [demo_entry, demo_entry] =
     (say (DuplicateSkipped ''Fed raises rates'') (tick demo_world), [demo_item])
   \<and> filter (\<lambda>x. link x = ''https://example.com/a'')
        (rows (fst (process_entries demo_clock ''Feed'' (empty_world, []) [demo_entry, demo_entry])))
      = [stored demo_item 1 (demo_clock 1)]"
proof -
  have first: "process_entry demo_clock ''Feed'' (empty_world, []) demo_entry =
                 (demo_world, [demo_item])"
    by (simp add: eval_feed empty_world_def demo_entry_def demo_item_def demo_world_def)
  have inv: "distinct (map link (rows demo_world))"
    by (simp add: demo_world_def)
  have mem: "stored demo_item 1 (demo_clock 1) \<in> set (rows demo_world)"
    by (simp add: demo_world_def)
  have cand: "candidate ''Feed'' (demo_clock (ticks demo_world)) demo_entry =
                Inr (Some (demo_item\<lparr>published := demo_clock 2\<rparr>))"
    by (simp add: eval_feed demo_entry_def demo_item_def demo_world_def)
  have key: "link (demo_item\<lparr>published := demo_clock 2\<rparr>) = link (stored demo_item 1 (demo_clock 1))"
    by (simp add: stored_def)
  have title: "get_title demo_entry = ''Fed raises rates''"
    by (simp add: get_title_def demo_entry_def)
  have lnk: "link (demo_item\<lparr>published := demo_clock 2\<rparr>) = ''https://example.com/a''"
    by (simp add: demo_item_def)
  note dedup = insert_dedup_idempotent
    [where clock = demo_clock and w = demo_world and new = "[demo_item]" and es = "[]",
     OF inv mem cand key]
  have step2: "process_entry demo_clock ''Feed'' (demo_world, [demo_item]) demo_entry =
                 (say (DuplicateSkipped (get_title demo_entry)) (tick demo_world), [demo_item])"
    using dedup by blast
  have one: "filter (\<lambda>x. link x = link (demo_item\<lparr>published := demo_clock 2\<rparr>))
               (rows (fst (process_entry demo_clock ''Feed'' (demo_world, [demo_item]) demo_entry)))
             = [stored demo_item 1 (demo_clock 1)]"
    using dedup by blast
  have run: "process_entries demo_clock ''Feed'' (empty_world, []) [demo_entry, demo_entry] =
               (say (DuplicateSkipped ''Fed raises rates'') (tick demo_world), [demo_item])"
    using first step2 title by simp
  have "filter (\<lambda>x. link x = ''https://example.com/a'')
          (rows (fst (say (DuplicateSkipped ''Fed raises rates'') (tick demo_world), [demo_item])))
        = [stored demo_item 1 (demo_clock 1)]"
    using one unfolding step2 title lnk .
  with run show ?thesis by simp
qed

lemma resolve_published_parseable:
  "parseable e \<Longrightarrow> \<exists>pub. resolve_published now e = Inr pub"
  by (auto simp: parseable_def date_ok_def resolve_published_def split: option.splits sum.splits)

lemma resolve_published_not_parseable:
  "\<not> parseable e \<Longrightarrow> \<exists>ex. resolve_published now e = Inl ex"
  by (auto simp: parseable_def date_ok_def resolve_published_def split: option.splits sum.splits)

lemma candidate_cases:
  "(\<not> parseable e \<and> (\<exists>ex. candidate src now e = Inl ex))
   \<or> (parseable e \<and> \<not> has_link e \<and> candidate src now e = Inr None)
   \<or> (parseable e \<and> has_link e \<and> (\<exists>it. candidate src now e = Inr (Some it) \<and> link it = get_link e))"
proof (cases "parseable e")
  case True
  then obtain pub where "resolve_published now e = Inr pub"
    using resolve_published_parseable by blast
  with True show ?thesis by (simp add: candidate_def has_link_def)
next
  case False
  then obtain ex where "resolve_published now e = Inl ex"
    using resolve_published_not_parseable by blast
  with False show ?thesis by (simp add: candidate_def)
qed

lemma process_entry_cases:
  fixes clock src st e
  defines "res \<equiv> fst (process_entry clock src st e)"
  shows "(\<not> parseable e \<and> rows res = rows (fst st)
            \<and> (\<exists>ex. events res = events (fst st) @ [ItemError ex]))
       \<or> (parseable e \<and> \<not> has_link e \<and> rows res = rows (fst st)
            \<and> events res = events (fst st) @ [NoLinkSkipped (get_title e)])
       \<or> (parseable e \<and> has_link e \<and> get_link e \<in> set (map link (rows (fst st)))
            \<and> rows res = rows (fst st)
            \<and> events res = events (fst st) @ [DuplicateSkipped (get_title e)])
       \<or> (parseable e \<and> has_link e \<and> get_link e \<notin> set (map link (rows (fst st)))
            \<and> (\<exists>r it. link r = get_link e \<and> rows res = rows (fst st) @ [r]
                  \<and> events res = events (fst st) @ [Added it]))"
proof -
  let ?now = "clock (ticks (fst st))"
  consider (raises) ex where "\<not> parseable e" "candidate src ?now e = Inl ex"
    | (nolink) "parseable e" "\<not> has_link e" "candidate src ?now e = Inr None"
    | (item) it where "parseable e" "has_link e" "candidate src ?now e = Inr (Some it)"
        "link it = get_link e"
    using candidate_cases [of e src ?now] by blast
  then show ?thesis
  proof cases
    case raises
    then show ?thesis by (simp add: res_def process_entry_def Let_def)
  next
    case nolink
    then show ?thesis by (simp add: res_def process_entry_def Let_def)
  next
    case item
    show ?thesis
    proof (cases "get_link e \<in> set (map link (rows (fst st)))")
      case True
      with item show ?thesis
        by (simp add: res_def process_entry_def Let_def session_add_commit_def)
    next
      case False
      with item have "rows res = rows (fst st) @ [stored it (next_id (rows (fst st))) (clock (Suc (ticks (fst st))))]
          \<and> events res = events (fst st) @ [Added it]"
        by (simp add: res_def process_entry_def Let_def session_add_commit_def)
      moreover have "link (stored it (next_id (rows (fst st))) (clock (Suc (ticks (fst st))))) = get_link e"
        using item by simp
      ultimately show ?thesis using item False by blast
    qed
  qed
qed

lemma session_add_commit_keeps_links_distinct:
  "distinct (map link (rows w)) \<Longrightarrow> session_add_commit clock w it = Inr w' \<Longrightarrow>
     distinct (map link (rows w'))"
  by (auto simp: session_add_commit_def split: if_splits)

lemma process_entry_keeps_links_distinct:
  assumes "distinct (map link (rows (fst st)))"
  shows "distinct (map link (rows (fst (process_entry clock src st e))))"
  using process_entry_cases [of e clock src st] assms by auto

lemma process_entries_keeps_links_distinct:
  "distinct (map link (rows (fst st))) \<Longrightarrow>
     distinct (map link (rows (fst (process_entries clock src st es))))"
  by (induction es arbitrary: st) (simp_all add: process_entry_keeps_links_distinct)









lemmas eval_dates = datetime_of_def days_in_month_def is_leap_def




lemma process_entry_stores_link:
  assumes p: "parseable e" and l: "entry_link e = Some l" "l \<noteq> []"
  shows "(\<exists>it. candidate src now e = Inr (Some it) \<and> link it = l)
       \<and> l \<in> set (map link (rows (fst (process_entry clock src st e))))
       \<and> (l \<notin> set (map link (rows (fst st))) \<longrightarrow>
            map link (rows (fst (process_entry clock src st e))) = map link (rows (fst st)) @ [l])"
proof -
  have g: "get_link e = l" and h: "has_link e"
    using l by (simp_all add: get_link_def has_link_def)
  have c: "\<exists>it. candidate src now e = Inr (Some it) \<and> link it = l"
    using candidate_cases [of e src now] p h g by auto
  have s: "l \<in> set (map link (rows (fst (process_entry clock src st e))))
       \<and> (l \<notin> set (map link (rows (fst st))) \<longrightarrow>
            map link (rows (fst (process_entry clock src st e))) = map link (rows (fst st)) @ [l])"
    using process_entry_cases [of e clock src st] p h g by auto
  from c s show ?thesis by blast
qed

lemma process_message_stores_link:
  fixes env :: "'more mail_env_scheme"
  assumes auth: "auth" and get: "messages_get env mid = Inr m"
    and body: "extract_email_body env (msg_payload m) = Inr body"
  shows "(\<exists>d. fst (parse_email_content env clock w m) = Inr d
             \<and> link d = ''local://email/'' @ msg_id m)
       \<and> ''local://email/'' @ msg_id m
            \<in> set (map link (rows (fst (process_message env clock auth st mid))))
       \<and> (''local://email/'' @ msg_id m \<notin> set (map link (rows (fst st))) \<longrightarrow>
            map link (rows (fst (process_message env clock auth st mid))) =
              map link (rows (fst st)) @ [''local://email/'' @ msg_id m])"
proof -
  have d: "\<exists>d. fst (parse_email_content env clock w m) = Inr d
             \<and> link d = ''local://email/'' @ msg_id m" for w
    using body by (simp add: parse_email_content_def Let_def)
  have details: "get_message_details env auth mid = Some m"
    using auth get by (simp add: get_message_details_def)
  obtain res w1 where p: "parse_email_content env clock (fst st) m = (res, w1)"
    by (cases "parse_email_content env clock (fst st) m")
  have w1: "rows w1 = rows (fst st)"
    using p
    by (auto simp: parse_email_content_def email_published_def Let_def
             split: sum.splits if_splits)
  from d [of "fst st"] p obtain dd where dd: "res = Inr dd" "link dd = ''local://email/'' @ msg_id m"
    by auto
  have s: "''local://email/'' @ msg_id m
            \<in> set (map link (rows (fst (process_message env clock auth st mid))))
       \<and> (''local://email/'' @ msg_id m \<notin> set (map link (rows (fst st))) \<longrightarrow>
            map link (rows (fst (process_message env clock auth st mid))) =
              map link (rows (fst st)) @ [''local://email/'' @ msg_id m])"
    using details p dd w1
    by (auto simp: process_message_def Let_def session_add_commit_def)
  from d [of w] s show ?thesis by blast
qed

text \<open>
  Claim C7. An entry with a link whose date does not raise yields a candidate whose
  link is the entry's link as it is; after the loop body the table has a row under that
  link, and when it had none before, the row is appended with exactly that link. A
  message that is fetched and whose body is extracted yields a record whose link is
  \<open>local://email/\<close> followed by the id of the message, and the table gets it likewise.
\<close>

theorem identity_key_format:
  fixes env :: "'more mail_env_scheme"
  shows "(parseable e \<and> entry_link e = Some l \<and> l \<noteq> [] \<longrightarrow>
            (\<exists>it. candidate src now e = Inr (Some it) \<and> link it = l)
          \<and> l \<in> set (map link (rows (fst (process_entry clock src st e))))
          \<and> (l \<notin> set (map link (rows (fst st))) \<longrightarrow>
               map link (rows (fst (process_entry clock src st e))) =
                 map link (rows (fst st)) @ [l]))
       \<and> (auth \<and> messages_get env mid = Inr m
            \<and> extract_email_body env (msg_payload m) = Inr body \<longrightarrow>
            (\<exists>d. fst (parse_email_content env clock w m) = Inr d
                  \<and> link d = ''local://email/'' @ msg_id m)
          \<and> ''local://email/'' @ msg_id m
               \<in> set (map link (rows (fst (process_message env clock auth st' mid))))
          \<and> (''local://email/'' @ msg_id m \<notin> set (map link (rows (fst st'))) \<longrightarrow>
               map link (rows (fst (process_message env clock auth st' mid))) =
                 map link (rows (fst st')) @ [''local://email/'' @ msg_id m]))"
  using process_entry_stores_link [of e l src now clock st]
    process_message_stores_link [of auth env mid m body clock w st']
  by blast

lemmas eval_mail =
  parse_email_content_def email_published_def extract_email_body_def scan_payload_def
  single_part_def get_data_def headers_get_def html_to_text_def strip_def is_space_def
  Let_def

text \<open>
  From the empty table, the entry of the round trip is stored under its own URL and the
  first message of the mailbox under its local URI.
\<close>

theorem identity_key_format_witness:
  "map link (rows (fst (process_entry demo_clock ''Feed'' (empty_world, []) demo_entry))) =
     [''https://example.com/a'']
   \<and> map link (rows (fst (process_message demo_env demo_clock True (empty_world, [])
                              ''18c2f0a1''))) = [''local://email/18c2f0a1'']"
proof -
  have feed: "parseable demo_entry \<and> entry_link demo_entry = Some ''https://example.com/a''
      \<and> ''https://example.com/a'' \<noteq> []"
    by (simp add: parseable_def demo_entry_def)
  have mail: "True \<and> messages_get demo_env ''18c2f0a1'' = Inr demo_message
      \<and> extract_email_body demo_env (msg_payload demo_message) = Inr ''hello''"
    by (simp add: extract_email_body_def scan_payload_def get_data_def strip_def is_space_def
          demo_env_def demo_message_def demo_b64_def plain_part_def html_part_def)
  have empty: "map link (rows (fst (empty_world, []))) = []"
    by (simp add: empty_world_def)
  have id: "msg_id demo_message = ''18c2f0a1''"
    by (simp add: demo_message_def)
  note key = identity_key_format
    [where e = demo_entry and l = "''https://example.com/a''" and clock = demo_clock
       and src = "''Feed''" and st = "(empty_world, [])" and auth = True and env = demo_env
       and mid = "''18c2f0a1''" and m = demo_message and body = "''hello''"
       and st' = "(empty_world, [])"]
  have a: "map link (rows (fst (process_entry demo_clock ''Feed'' (empty_world, []) demo_entry))) =
             map link (rows (fst (empty_world, []))) @ [''https://example.com/a'']"
    using key feed empty by simp
  have b: "map link (rows (fst (process_message demo_env demo_clock True (empty_world, [])
                              ''18c2f0a1''))) =
             map link (rows (fst (empty_world, []))) @ [''local://email/'' @ msg_id demo_message]"
    using key mail empty by simp
  from a b show ?thesis
    unfolding empty id by simp
qed

text \<open>
  Claim C9, as amended. The title is the entry's title when the key is there, and the
  placeholder when it is not; so it is not empty unless the entry's title is the empty
  string. The same holds of a message and its last Subject header.
\<close>

theorem title_placeholder_when_absent:
  "(candidate src now e = Inr (Some it) \<longrightarrow>
      title it = (case entry_title e of None \<Rightarrow> ''No Title'' | Some t \<Rightarrow> t)
      \<and> (entry_title e \<noteq> Some [] \<longrightarrow> title it \<noteq> []))
   \<and> (fst (parse_email_content env clock w m) = Inr d \<longrightarrow>
      title d = headers_get (case headers (msg_payload m) of Some h \<Rightarrow> h | None \<Rightarrow> [])
                  ''Subject'' ''No Subject''
      \<and> ((''Subject'', []) \<notin> set (case headers (msg_payload m) of Some h \<Rightarrow> h | None \<Rightarrow> [])
           \<longrightarrow> title d \<noteq> []))"
proof -
  have a: "candidate src now e = Inr (Some it) \<longrightarrow>
      title it = (case entry_title e of None \<Rightarrow> ''No Title'' | Some t \<Rightarrow> t)
      \<and> (entry_title e \<noteq> Some [] \<longrightarrow> title it \<noteq> [])"
    by (auto simp: candidate_def get_title_def split: sum.splits option.splits if_splits)
  have h: "(''Subject'', []) \<notin> set hs \<Longrightarrow> headers_get hs ''Subject'' ''No Subject'' \<noteq> []" for hs
    by (auto simp: headers_get_def split: option.splits dest!: map_of_SomeD)
  have b: "fst (parse_email_content env clock w m) = Inr d \<longrightarrow>
      title d = headers_get (case headers (msg_payload m) of Some h \<Rightarrow> h | None \<Rightarrow> [])
                  ''Subject'' ''No Subject''"
    by (auto simp: parse_email_content_def Let_def split: sum.splits)
  show ?thesis using a b h by metis
qed

theorem title_placeholder_when_absent_witness:
  "candidate ''Feed'' (demo_clock 0) demo_notitle =
     Inr (Some \<lparr>title = ''No Title'', link = ''https://example.com/d'',
                published = demo_clock 0, summary = [], source = ''Feed''\<rparr>)
   \<and> fst (parse_email_content demo_env demo_clock empty_world demo_nosubject) =
       Inr \<lparr>title = ''No Subject'', link = ''local://email/18c2f0a3'',
            published = demo_clock 0, summary = ''hello'', source = ''email'',
            sender = ''Unknown Sender'', message_id = ''18c2f0a3''\<rparr>"
proof -
  let ?it = "\<lparr>title = get_title demo_notitle, link = ''https://example.com/d'',
                published = demo_clock 0, summary = [], source = ''Feed''\<rparr>"
  let ?d = "\<lparr>title = headers_get [] ''Subject'' ''No Subject'',
            link = ''local://email/18c2f0a3'',
            published = demo_clock 0, summary = ''hello'', source = ''email'',
            sender = ''Unknown Sender'', message_id = ''18c2f0a3''\<rparr>"
  have cand: "candidate ''Feed'' (demo_clock 0) demo_notitle = Inr (Some ?it)"
    by (simp add: candidate_def resolve_published_def get_link_def get_summary_def
          demo_notitle_def)
  have mail: "fst (parse_email_content demo_env demo_clock empty_world demo_nosubject) = Inr ?d"
    by (simp add: eval_mail demo_env_def demo_nosubject_def demo_b64_def empty_world_def)
  have absent: "entry_title demo_notitle = None" "headers (msg_payload demo_nosubject) = None"
    by (simp_all add: demo_notitle_def demo_nosubject_def)
  from title_placeholder_when_absent
    [of "''Feed''" "demo_clock 0" demo_notitle ?it demo_env demo_clock empty_world
        demo_nosubject ?d]
    cand mail
  have "title ?it = (case entry_title demo_notitle of None \<Rightarrow> ''No Title'' | Some t \<Rightarrow> t)
      \<and> title ?d = headers_get
            (case headers (msg_payload demo_nosubject) of Some h \<Rightarrow> h | None \<Rightarrow> [])
            ''Subject'' ''No Subject''"
    by blast
  then have "get_title demo_notitle = ''No Title''
      \<and> headers_get [] ''Subject'' ''No Subject'' = ''No Subject''"
    using absent by (simp add: headers_get_def)
  with cand mail show ?thesis by simp
qed

text \<open>
  Claim C9 as stated fails: an entry whose title is the empty string is stored with an
  empty title, and so is a message whose Subject header is empty.
\<close>

theorem empty_title_is_stored:
  "map title (rows (fst (process_entries demo_clock ''Feed'' (empty_world, []) [demo_untitled])))
     = [[]]
   \<and> fst (parse_email_content demo_env demo_clock empty_world demo_blank_subject) =
       Inr \<lparr>title = [], link = ''local://email/18c2f0a2'',
            published = demo_clock 0, summary = ''hello'', source = ''email'',
            sender = ''Unknown Sender'', message_id = ''18c2f0a2''\<rparr>"
  by (simp add: eval_feed eval_mail stored_def demo_untitled_def empty_world_def
        demo_env_def demo_blank_subject_def demo_b64_def)

section \<open>The cycle over the feeds\<close>

lemma fetch_single_feed_returns:
  "\<exists>r. fetch_single_feed env clock w source_name feed_url = Inr r"
  by (simp add: fetch_single_feed_def Let_def split: sum.splits)

lemma fetch_single_feed_network_error:
  "requests_get env feed_url = Inl ex \<Longrightarrow>
     \<exists>w'. fetch_single_feed env clock w source_name feed_url = Inr ([], w') \<and> rows w' = rows w"
  by (simp add: fetch_single_feed_def)

lemma fetch_all_feeds_from_success:
  "(\<forall>n r. fst acc n = Some r \<longrightarrow> success r \<and> error r = None) \<Longrightarrow>
   (\<forall>n r. fst (fetch_all_feeds_from env clock feeds acc) n = Some r
            \<longrightarrow> success r \<and> error r = None)"
proof (induction feeds arbitrary: acc)
  case Nil
  then show ?case by simp
next
  case (Cons f fs)
  obtain r where r: "fetch_single_feed env clock (snd acc) (fst f) (snd f) = Inr r"
    using fetch_single_feed_returns by blast
  define acc' where "acc' = ((fst acc)(fst f \<mapsto>
               \<lparr>success = True, new_items = length (fst r),
                result_items = Some (fst r), error = None\<rparr>), snd r)"
  have step: "fetch_all_feeds_from env clock (f # fs) acc = fetch_all_feeds_from env clock fs acc'"
    using r by (simp add: Let_def acc'_def)
  have inv: "\<forall>n q. fst acc' n = Some q \<longrightarrow> success q \<and> error q = None"
    using Cons.prems by (auto simp: acc'_def split: if_splits)
  show ?case
    unfolding step by (rule Cons.IH [OF inv])
qed

lemma fetch_all_feeds_never_reports_error:
  "fst (fetch_all_feeds env clock feeds w) name = Some res \<Longrightarrow> success res \<and> error res = None"
  using fetch_all_feeds_from_success [of "(Map.empty, w)" env clock feeds]
  by (simp add: fetch_all_feeds_def)

text \<open>
  Claim C2 on three feeds of which the second times out: the summary has the counts of
  the other two, and for the failed one an entry that says success, with no error.
\<close>

theorem timed_out_feed_reported_as_success:
  "fst (fetch_all_feeds demo_feed_env demo_clock demo_feeds empty_world) ''Beta'' =
     Some \<lparr>success = True, new_items = 0, result_items = Some [], error = None\<rparr>
   \<and> map_option new_items
         (fst (fetch_all_feeds demo_feed_env demo_clock demo_feeds empty_world) ''Alpha'') = Some 1
   \<and> map_option new_items
         (fst (fetch_all_feeds demo_feed_env demo_clock demo_feeds empty_world) ''Gamma'') = Some 1
   \<and> events (snd (fetch_all_feeds demo_feed_env demo_clock demo_feeds empty_world)) =
       [Added (demo_item\<lparr>source := ''Alpha''\<rparr>), NetworkError ''Beta'',
        Added \<lparr>title = ''Dated'', link = ''https://example.com/b'',
               published = \<lparr>dt_year = 2024, dt_month = 2, dt_day = 29, dt_hour = 8,
                            dt_minute = 30, dt_second = 0, dt_microsecond = 0\<rparr>,
               summary = ''text'', source = ''Gamma''\<rparr>]"
  by (simp add: fetch_all_feeds_def fetch_single_feed_def eval_feed eval_dates Let_def
        demo_feeds_def demo_feed_env_def demo_entry_def demo_dated_def demo_pub_def
        demo_item_def demo_clock_def empty_world_def stored_def)

section \<open>The cycle over the mailbox\<close>

lemma process_message_cases:
  fixes env :: "'more mail_env_scheme"
  shows "(\<exists>w'. process_message env clock auth st mid = (w', snd st)
            \<and> length (filter submitted (events w'))
                \<le> Suc (length (filter submitted (events (fst st)))))
       \<or> (\<exists>w' it. process_message env clock auth st mid = (w', snd st @ [it])
            \<and> length (filter submitted (events w'))
                \<le> Suc (length (filter submitted (events (fst st)))))"
proof (cases "get_message_details env auth mid")
  case None
  then show ?thesis by (cases st) (simp add: process_message_def)
next
  case (Some m)
  obtain res w1 where p: "parse_email_content env clock (fst st) m = (res, w1)"
    by (cases "parse_email_content env clock (fst st) m")
  have w1: "events w1 = events (fst st)"
    using p
    by (auto simp: parse_email_content_def email_published_def Let_def
             split: sum.splits if_splits)
  show ?thesis
  proof (cases res)
    case (Inl ex)
    with Some p w1 show ?thesis by (simp add: process_message_def)
  next
    case (Inr d)
    with Some p w1 show ?thesis
      by (auto simp: process_message_def Let_def session_add_commit_def)
  qed
qed

lemma process_messages_bounds:
  fixes env :: "'more mail_env_scheme"
  shows "length (snd (process_messages env clock auth st mids)) \<le> length (snd st) + length mids
       \<and> length (filter submitted (events (fst (process_messages env clock auth st mids))))
           \<le> length (filter submitted (events (fst st))) + length mids"
proof (induction mids arbitrary: st)
  case Nil
  show ?case by simp
next
  case (Cons mid mids)
  let ?st = "process_message env clock auth st mid"
  have step: "length (snd ?st) \<le> Suc (length (snd st))
      \<and> length (filter submitted (events (fst ?st)))
          \<le> Suc (length (filter submitted (events (fst st))))"
    using process_message_cases [of env clock auth st mid] by auto
  show ?case
    using Cons.IH [of ?st] step by (simp del: filter_append)
qed

lemma search_emails_cap:
  fixes env :: "'more mail_env_scheme"
  assumes "\<And>q n ids. messages_list env q n = Inr ids \<Longrightarrow> length ids \<le> n"
  shows "length (search_emails env auth query max_results) \<le> max_results"
  using assms by (auto simp: search_emails_def split: sum.splits)

lemma html_to_text_other_list:
  fixes env :: "'more mail_env_scheme"
  shows "html_to_text (env\<lparr>messages_list := f\<rparr>) html = html_to_text env html"
  by (simp add: html_to_text_def split: sum.splits)

lemma extract_email_body_other_list:
  fixes env :: "'more mail_env_scheme"
  shows "extract_email_body (env\<lparr>messages_list := f\<rparr>) p = extract_email_body env p"
  by (simp add: extract_email_body_def html_to_text_other_list split: sum.splits)

lemma email_published_other_list:
  fixes env :: "'more mail_env_scheme"
  shows "email_published (env\<lparr>messages_list := f\<rparr>) clock w m date_str =
         email_published env clock w m date_str"
  by (simp add: email_published_def Let_def split: sum.splits)

lemma parse_email_content_other_list:
  fixes env :: "'more mail_env_scheme"
  shows "parse_email_content (env\<lparr>messages_list := f\<rparr>) clock w m =
         parse_email_content env clock w m"
  by (simp add: parse_email_content_def email_published_other_list
        extract_email_body_other_list)

lemma process_message_other_list:
  fixes env :: "'more mail_env_scheme"
  shows "process_message (env\<lparr>messages_list := f\<rparr>) clock auth st mid =
         process_message env clock auth st mid"
  by (simp add: process_message_def get_message_details_def parse_email_content_other_list
        split: sum.splits)

lemma process_messages_other_list:
  fixes env :: "'more mail_env_scheme"
  shows "process_messages (env\<lparr>messages_list := f\<rparr>) clock auth st mids =
         process_messages env clock auth st mids"
  by (induction mids arbitrary: st) (simp_all add: process_message_other_list)

text \<open>
  Claim C10. When the mailbox API returns no more messages than \<open>maxResults\<close> allows,
  one mail cycle submits at most 100 records to the store and adds at most 100 items;
  and the only cap the cycle ever passes to the search is 100: answers of the API to any
  other cap make no difference.
\<close>

theorem mail_cycle_at_most_100:
  fixes env :: "'more mail_env_scheme"
  assumes api: "\<And>q n ids. messages_list env q n = Inr ids \<Longrightarrow> length ids \<le> n"
  shows "length (fst (fetch_newsletter_emails env clock cfg auth days_back w)) \<le> 100
       \<and> length (filter submitted
            (events (snd (fetch_newsletter_emails env clock cfg auth days_back w))))
           \<le> length (filter submitted (events w)) + 100
       \<and> fetch_newsletter_emails
            (env\<lparr>messages_list :=
                   \<lambda>q n. if n = 100 then messages_list env q n else Inl OtherError\<rparr>)
            clock cfg auth days_back w
          = fetch_newsletter_emails env clock cfg auth days_back w"
proof (cases auth)
  case False
  then show ?thesis by (simp add: fetch_newsletter_emails_def)
next
  case True
  define query where
    "query = build_query cfg (case days_back of Some d \<Rightarrow> d | None \<Rightarrow> EMAIL_FETCH_DAYS_BACK cfg)"
  define mids where "mids = search_emails env True query 100"
  have len: "length mids \<le> 100"
    unfolding mids_def using api by (rule search_emails_cap)
  have run: "fetch_newsletter_emails env clock cfg auth days_back w =
               (snd (process_messages env clock True (w, []) mids),
                fst (process_messages env clock True (w, []) mids))"
    using True by (simp add: fetch_newsletter_emails_def Let_def mids_def query_def)
  have same: "search_emails
                (env\<lparr>messages_list :=
                       \<lambda>q n. if n = 100 then messages_list env q n else Inl OtherError\<rparr>)
                True query 100 = mids"
    by (simp add: search_emails_def mids_def)
  have run': "fetch_newsletter_emails
            (env\<lparr>messages_list :=
                   \<lambda>q n. if n = 100 then messages_list env q n else Inl OtherError\<rparr>)
            clock cfg auth days_back w =
               (snd (process_messages env clock True (w, []) mids),
                fst (process_messages env clock True (w, []) mids))"
    using True same
    by (simp add: fetch_newsletter_emails_def Let_def query_def process_messages_other_list)
  show ?thesis
    using process_messages_bounds [of env clock True "(w, [])" mids] len run run'
    by simp
qed

text \<open>
  A mailbox with 150 matching messages whose API honours the cap: the cycle handles
  no more than 100 of them.
\<close>

theorem mail_cycle_at_most_100_witness:
  "length (fst (fetch_newsletter_emails
             (demo_env\<lparr>messages_list := \<lambda>q n. Inr (take n (replicate 150 ''18c2f0a1''))\<rparr>)
             demo_clock
             \<lparr>EMAIL_FETCH_ALL_NEWSLETTERS = True, EMAIL_SOURCES = [], EMAIL_FETCH_DAYS_BACK = 7\<rparr>
             True None empty_world)) \<le> 100"
proof -
  let ?env = "demo_env\<lparr>messages_list := \<lambda>q n. Inr (take n (replicate 150 ''18c2f0a1''))\<rparr>"
  let ?cfg = "\<lparr>EMAIL_FETCH_ALL_NEWSLETTERS = True, EMAIL_SOURCES = [], EMAIL_FETCH_DAYS_BACK = 7\<rparr>"
  have api: "messages_list ?env q n = Inr ids \<Longrightarrow> length ids \<le> n" for q n ids
    by auto
  note cap = mail_cycle_at_most_100
    [where env = ?env and clock = demo_clock and cfg = ?cfg and auth = True
       and days_back = None and w = empty_world, OF api]
  from cap show ?thesis by (rule conjunct1)
qed

section \<open>The normalizer\<close>







lemma re_sub_tags_plain: "CHR ''<'' \<notin> set s \<Longrightarrow> re_sub_tags s = s"
  by (induction s) auto

lemma re_sub_tags_tag:
  assumes "t \<noteq> []" and "CHR ''>'' \<notin> set t"
  shows "re_sub_tags (CHR ''<'' # t @ CHR ''>'' # rest) = re_sub_tags rest"
proof -
  have tw: "takeWhile (\<lambda>x. x \<noteq> CHR ''>'') (t @ CHR ''>'' # rest) = t"
    using assms(2) by (induction t) auto
  have dw: "dropWhile (\<lambda>x. x \<noteq> CHR ''>'') (t @ CHR ''>'' # rest) = CHR ''>'' # rest"
    using assms(2) by (induction t) auto
  show ?thesis
    using assms(1) by (simp add: tw dw)
qed

lemma re_sub_tags_append_plain:
  "CHR ''<'' \<notin> set a \<Longrightarrow> re_sub_tags (a @ b) = a @ re_sub_tags b"
  by (induction a) auto

text \<open>
  Claim C3, as amended. The tag-stripping fallback is what _html_to_text returns exactly
  when bs4 cannot be imported: the input with every match of the tag pattern removed,
  then trimmed of surrounding whitespace; this branch never raises. When bs4 is there
  and the parser raises, the exception leaves _html_to_text. The pattern removes a
  \<open><\<close>, the characters up to the next \<open>></\<close> (at least one) and that \<open>></\<close>, and leaves
  text without \<open><\<close> as it is.
\<close>

theorem html_to_text_fallback_on_import_failure:
  fixes env :: "'more html_env_scheme"
  shows "(\<not> bs4_importable env \<longrightarrow>
            html_to_text env html_content = Inr (strip (re_sub_tags html_content)))
       \<and> (bs4_importable env \<and> BeautifulSoup env html_content = Inl ex \<longrightarrow>
            html_to_text env html_content = Inl ex)
       \<and> (CHR ''<'' \<notin> set a \<and> t \<noteq> [] \<and> CHR ''>'' \<notin> set t \<longrightarrow>
            re_sub_tags (a @ CHR ''<'' # t @ CHR ''>'' # rest) = a @ re_sub_tags rest)
       \<and> (CHR ''<'' \<notin> set a \<longrightarrow> re_sub_tags a = a)"
proof -
  have fallback: "\<not> bs4_importable env \<longrightarrow>
            html_to_text env html_content = Inr (strip (re_sub_tags html_content))"
    by (simp add: html_to_text_def)
  have raised: "bs4_importable env \<and> BeautifulSoup env html_content = Inl ex \<longrightarrow>
            html_to_text env html_content = Inl ex"
    by (simp add: html_to_text_def)
  have tag: "CHR ''<'' \<notin> set a \<and> t \<noteq> [] \<and> CHR ''>'' \<notin> set t \<longrightarrow>
            re_sub_tags (a @ CHR ''<'' # t @ CHR ''>'' # rest) = a @ re_sub_tags rest"
    using re_sub_tags_append_plain [of a "CHR ''<'' # t @ CHR ''>'' # rest"]
      re_sub_tags_tag [of t rest]
    by metis
  have plain: "CHR ''<'' \<notin> set a \<longrightarrow> re_sub_tags a = a"
    using re_sub_tags_plain [of a] by blast
  from fallback raised tag plain show ?thesis by blast
qed

text \<open>
  Without bs4 the markup of a paragraph goes and the blanks around it too; with a parser
  that rejects the markup the exception comes out.
\<close>

theorem html_to_text_fallback_on_import_failure_witness:
  "html_to_text (demo_env\<lparr>bs4_importable := False\<rparr>) '' <p>Hello <b>world</b></p> '' =
     Inr ''Hello world''
   \<and> html_to_text (demo_env\<lparr>BeautifulSoup := \<lambda>s. Inl ParserRejectedMarkup\<rparr>)
        '' <p>Hello <b>world</b></p> '' = Inl ParserRejectedMarkup"
proof -
  have off: "\<not> bs4_importable (demo_env\<lparr>bs4_importable := False\<rparr>)"
    by simp
  have rejects: "bs4_importable (demo_env\<lparr>BeautifulSoup := \<lambda>s. Inl ParserRejectedMarkup\<rparr>)
      \<and> BeautifulSoup (demo_env\<lparr>BeautifulSoup := \<lambda>s. Inl ParserRejectedMarkup\<rparr>)
          '' <p>Hello <b>world</b></p> '' = Inl ParserRejectedMarkup"
    by (simp add: demo_env_def)
  have stripped: "strip (re_sub_tags '' <p>Hello <b>world</b></p> '') = ''Hello world''"
    by (simp add: strip_def is_space_def)
  from html_to_text_fallback_on_import_failure
    [where env = "demo_env\<lparr>bs4_importable := False\<rparr>"
       and html_content = "'' <p>Hello <b>world</b></p> ''"] off
  have a: "html_to_text (demo_env\<lparr>bs4_importable := False\<rparr>) '' <p>Hello <b>world</b></p> '' =
             Inr (strip (re_sub_tags '' <p>Hello <b>world</b></p> ''))"
    by blast
  from html_to_text_fallback_on_import_failure
    [where env = "demo_env\<lparr>BeautifulSoup := \<lambda>s. Inl ParserRejectedMarkup\<rparr>"
       and html_content = "'' <p>Hello <b>world</b></p> ''" and ex = ParserRejectedMarkup]
    rejects
  have b: "html_to_text (demo_env\<lparr>BeautifulSoup := \<lambda>s. Inl ParserRejectedMarkup\<rparr>)
        '' <p>Hello <b>world</b></p> '' = Inl ParserRejectedMarkup"
    by blast
  from a b stripped show ?thesis by simp
qed

text \<open>
  Claim C3 as stated fails: with bs4 installed and a parser that rejects the input,
  _html_to_text raises instead of returning the tag-stripped text; and the fallback it
  has for a missing bs4 does more than strip the tags, it trims the result.
\<close>

theorem parser_failure_is_raised:
  "html_to_text (demo_env\<lparr>BeautifulSoup := \<lambda>s. Inl ParserRejectedMarkup\<rparr>)
     '' <p>Hello <b>world</b></p> '' = Inl ParserRejectedMarkup
   \<and> re_sub_tags '' <p>Hello <b>world</b></p> '' = '' Hello world ''
   \<and> html_to_text (demo_env\<lparr>bs4_importable := False\<rparr>) '' <p>Hello <b>world</b></p> '' =
       Inr ''Hello world''"
  by (simp add: html_to_text_def demo_env_def strip_def is_space_def)





section \<open>The body of a message\<close>

lemma strip_Nil [simp]: "strip [] = []"
  by (simp add: strip_def)

lemma collect_parts_typed_text:
  assumes "\<And>q. q \<in> set qs \<Longrightarrow> get_data q \<noteq> [] \<Longrightarrow>
             mimeType q = ''text/plain'' \<or> mimeType q = ''text/html'' \<Longrightarrow>
             dec (get_data q) = Inr (decoded (get_data q))"
  shows "collect_parts dec qs acc =
           Inr (fst acc @ typed_text decoded ''text/plain'' qs,
                snd acc @ typed_text decoded ''text/html'' qs)"
  using assms
proof (induction qs arbitrary: acc)
  case Nil
  show ?case by (simp add: typed_text_def)
next
  case (Cons q qs)
  have rest: "collect_parts dec qs acc' =
           Inr (fst acc' @ typed_text decoded ''text/plain'' qs,
                snd acc' @ typed_text decoded ''text/html'' qs)" for acc'
    using Cons.IH Cons.prems by simp
  have here: "get_data q \<noteq> [] \<Longrightarrow>
             mimeType q = ''text/plain'' \<or> mimeType q = ''text/html'' \<Longrightarrow>
             dec (get_data q) = Inr (decoded (get_data q))"
    using Cons.prems by simp
  show ?case
    using here by (auto simp: rest typed_text_def)
qed

lemma single_part_collect: "single_part dec p = collect_parts dec [p] ([], [])"
  by (auto simp: single_part_def split: sum.splits)

lemma scan_payload_direct: "scan_payload dec p = collect_parts dec (direct_parts p) ([], [])"
  by (simp add: scan_payload_def direct_parts_def single_part_collect split: option.splits)

text \<open>
  Claim C8, as amended. Body extraction reads the payload itself when it has no parts,
  and its direct child parts when it has, never the parts of a part. Where the decoder
  succeeds on them, the texts of the plain-text parts with data are concatenated, and
  likewise the texts of the HTML parts. The body is the plain text, trimmed, if that
  text is not empty; else the HTML text passed through the normalizer and trimmed, if
  the HTML text is not empty; else it is empty.
\<close>

theorem body_prefers_plain_text_of_direct_parts:
  fixes env :: "'more mail_env_scheme"
  assumes "\<And>q. q \<in> set (direct_parts p) \<Longrightarrow> get_data q \<noteq> [] \<Longrightarrow>
             mimeType q = ''text/plain'' \<or> mimeType q = ''text/html'' \<Longrightarrow>
             b64decode_utf8 env (get_data q) = Inr (decoded (get_data q))"
  shows "extract_email_body env p =
           (if typed_text decoded ''text/plain'' (direct_parts p) \<noteq> []
            then Inr (strip (typed_text decoded ''text/plain'' (direct_parts p)))
            else if typed_text decoded ''text/html'' (direct_parts p) \<noteq> []
            then (case html_to_text env (typed_text decoded ''text/html'' (direct_parts p)) of
                    Inl ex \<Rightarrow> Inl ex
                  | Inr final_body \<Rightarrow> Inr (strip final_body))
            else Inr [])"
proof -
  have "scan_payload (b64decode_utf8 env) p =
          Inr (typed_text decoded ''text/plain'' (direct_parts p),
               typed_text decoded ''text/html'' (direct_parts p))"
    unfolding scan_payload_direct
    using collect_parts_typed_text [of "direct_parts p" "b64decode_utf8 env" decoded "([], [])"]
      assms
    by simp
  then show ?thesis
    by (simp add: extract_email_body_def)
qed

text \<open>
  A message with both alternatives gets the plain text; one whose plain-text part has
  no data gets the HTML through the normalizer, a paragraph as one line.
\<close>

theorem body_prefers_plain_text_of_direct_parts_witness:
  "extract_email_body demo_env (msg_payload demo_message) = Inr ''hello''
   \<and> extract_email_body demo_env html_only_payload = Inr ''Hello from the newsletter''"
proof -
  have both: "direct_parts (msg_payload demo_message) = [plain_part, html_part]"
    by (simp add: direct_parts_def demo_message_def)
  have only: "direct_parts html_only_payload =
                [Payload ''text/plain'' None None None, newsletter_part]"
    by (simp add: direct_parts_def html_only_payload_def)
  have dec1: "b64decode_utf8 demo_env (get_data q) = Inr (demo_decoded (get_data q))"
    if "q \<in> set (direct_parts (msg_payload demo_message))" "get_data q \<noteq> []"
      "mimeType q = ''text/plain'' \<or> mimeType q = ''text/html''" for q
    using that unfolding both
    by (auto simp: demo_env_def demo_b64_def demo_decoded_def get_data_def plain_part_def
          html_part_def)
  have dec2: "b64decode_utf8 demo_env (get_data q) = Inr (demo_decoded (get_data q))"
    if "q \<in> set (direct_parts html_only_payload)" "get_data q \<noteq> []"
      "mimeType q = ''text/plain'' \<or> mimeType q = ''text/html''" for q
    using that unfolding only
    by (auto simp: demo_env_def demo_b64_def demo_decoded_def get_data_def newsletter_part_def)
  have t1: "typed_text demo_decoded ''text/plain'' [plain_part, html_part] = ''hello''"
    by (simp add: typed_text_def demo_decoded_def get_data_def plain_part_def html_part_def)
  have t2: "typed_text demo_decoded ''text/plain''
              [Payload ''text/plain'' None None None, newsletter_part] = []"
    by (simp add: typed_text_def demo_decoded_def get_data_def newsletter_part_def)
  have t3: "typed_text demo_decoded ''text/html''
              [Payload ''text/plain'' None None None, newsletter_part] =
              ''<p>Hello from the <b>newsletter</b></p>''"
    by (simp add: typed_text_def demo_decoded_def get_data_def newsletter_part_def)
  have n: "html_to_text demo_env ''<p>Hello from the <b>newsletter</b></p>'' =
             Inr ''Hello from the newsletter''"
    by code_simp
  have s1: "strip ''hello'' = ''hello''"
    and s2: "strip ''Hello from the newsletter'' = ''Hello from the newsletter''"
    by (simp_all add: strip_def is_space_def)
  have a: "extract_email_body demo_env (msg_payload demo_message) = Inr ''hello''"
    using body_prefers_plain_text_of_direct_parts
      [where env = demo_env and p = "msg_payload demo_message" and decoded = demo_decoded,
       OF dec1]
    unfolding both t1 s1 by simp
  have b: "extract_email_body demo_env html_only_payload = Inr ''Hello from the newsletter''"
    using body_prefers_plain_text_of_direct_parts
      [where env = demo_env and p = html_only_payload and decoded = demo_decoded, OF dec2]
    unfolding only t2 t3 n by (simp add: s2)
  from a b show ?thesis by simp
qed

text \<open>
  Claim C8 as stated fails: the message with an attachment has a plain-text part, which
  the specified extraction finds, and the body the code extracts is empty.
\<close>

theorem nested_plain_text_is_not_found:
  "extract_email_body demo_env nested_payload = Inr []
   \<and> body_as_specified demo_env nested_payload = Inr ''hello''"
  by (simp add: extract_email_body_def scan_payload_def body_as_specified_def nested_payload_def
        plain_part_def html_part_def get_data_def demo_env_def demo_b64_def)

end
